theory Spec2Isabelle
  imports Main "HOL-Library.AList" "HOL-Library.Sublist"
begin

section \<open>JavaScript values\<close>

text \<open>
  The storage layer handles identifiers loosely: a vendor's \<^verbatim>\<open>userId\<close> is declared
  \<^verbatim>\<open>number | string\<close> in \<^verbatim>\<open>shared/schema.ts\<close>, is stored as an ObjectId by
  \<^verbatim>\<open>createVendor\<close>, and the code inspects it with \<^verbatim>\<open>typeof\<close>, \<^verbatim>\<open>String\<close>,
  \<^verbatim>\<open>Number\<close> and \<^verbatim>\<open>isNaN\<close>. Such fields are modelled by a small universe of
  JavaScript values. Numbers are integers (identifiers, counts, star ratings); \<open>NaN\<close> is
  kept apart because the code tests for it. An ObjectId is represented by its text, 24
  hexadecimal digits in lower case.
\<close>

datatype jsval = Num int | NaN | Str string | Oid string | Undefined

datatype jstype = TNumber | TString | TObject | TUndefined

fun typeof :: "jsval \<Rightarrow> jstype" where
  "typeof (Num n) = TNumber"
| "typeof NaN = TNumber"
| "typeof (Str s) = TString"
| "typeof (Oid h) = TObject"
| "typeof Undefined = TUndefined"

text \<open>Truthiness, as used by \<^verbatim>\<open>!x\<close>, \<^verbatim>\<open>x && y\<close> and \<^verbatim>\<open>x || y\<close>.\<close>

fun truthy :: "jsval \<Rightarrow> bool" where
  "truthy (Num n) = (n \<noteq> 0)"
| "truthy NaN = False"
| "truthy (Str s) = (s \<noteq> [])"
| "truthy (Oid h) = True"
| "truthy Undefined = False"

text \<open>Strict equality \<^verbatim>\<open>===\<close>: same type and same value, and \<open>NaN\<close> equal to nothing.\<close>

fun strict_eq :: "jsval \<Rightarrow> jsval \<Rightarrow> bool" where
  "strict_eq NaN b = False"
| "strict_eq a NaN = False"
| "strict_eq a b = (a = b)"

text \<open>\<^verbatim>\<open>String(v)\<close>: decimal text of an integer, the hexadecimal text of an ObjectId.\<close>

definition digit_char :: "nat \<Rightarrow> char" where
  "digit_char d = char_of (48 + d)"

fun dec_nat :: "nat \<Rightarrow> string" where
  "dec_nat n = (if n < 10 then [digit_char n] else dec_nat (n div 10) @ [digit_char (n mod 10)])"

declare dec_nat.simps [simp del]

definition dec_int :: "int \<Rightarrow> string" where
  "dec_int i = (if i < 0 then CHR ''-'' # dec_nat (nat (- i)) else dec_nat (nat i))"

fun String_js :: "jsval \<Rightarrow> string" where
  "String_js (Num n) = dec_int n"
| "String_js NaN = ''NaN''"
| "String_js (Str s) = s"
| "String_js (Oid h) = h"
| "String_js Undefined = ''undefined''"

text \<open>
  \<^verbatim>\<open>Number(v)\<close>. The result is \<open>Some n\<close> for a number and \<open>None\<close> for \<open>NaN\<close>,
  so \<^verbatim>\<open>isNaN(Number(v))\<close> is \<open>Number_js toNum v = None\<close>. The conversion of a
  string to a number is the language's own (white space, signs, radix prefixes, exponents);
  it is not part of the repository and is taken as the parameter \<open>toNum\<close>. An ObjectId
  converts through its text.
\<close>

type_synonym str2num = "string \<Rightarrow> int option"

fun Number_js :: "str2num \<Rightarrow> jsval \<Rightarrow> int option" where
  "Number_js toNum (Num n) = Some n"
| "Number_js toNum NaN = None"
| "Number_js toNum (Str s) = toNum s"
| "Number_js toNum (Oid h) = toNum h"
| "Number_js toNum Undefined = None"

definition of_number :: "int option \<Rightarrow> jsval" where
  "of_number r = (case r of Some n \<Rightarrow> Num n | None \<Rightarrow> NaN)"

text \<open>
  A concrete conversion for plain decimal numerals; it instantiates \<open>toNum\<close> where a
  definition is evaluated on concrete inputs. On such a numeral JavaScript yields a number
  too, the same one below \<open>2 ^ 53\<close>.
\<close>

definition is_digit :: "char \<Rightarrow> bool" where
  "is_digit c = (48 \<le> (of_char c :: nat) \<and> (of_char c :: nat) \<le> 57)"

definition decimal :: str2num where
  "decimal s = (if s \<noteq> [] \<and> list_all is_digit s
                then Some (foldl (\<lambda>a c. 10 * a + (int (of_char c) - 48)) 0 s) else None)"

text \<open>\<^verbatim>\<open>v + 1\<close>: addition on numbers, concatenation when \<open>v\<close> is not a number.\<close>

fun plus_one :: "jsval \<Rightarrow> jsval" where
  "plus_one (Num n) = Num (n + 1)"
| "plus_one NaN = NaN"
| "plus_one Undefined = NaN"
| "plus_one (Str s) = Str (s @ ''1'')"
| "plus_one (Oid h) = Str (h @ ''1'')"

text \<open>
  \<^verbatim>\<open>Math.round(total / count)\<close> for an integer total and a positive count: the
  nearest integer to the quotient, a tie going up.
\<close>

definition Math_round_div :: "int \<Rightarrow> int \<Rightarrow> int" where
  "Math_round_div tot cnt = (2 * tot + cnt) div (2 * cnt)"

text \<open>
  \<^verbatim>\<open>s.toLowerCase()\<close> is the language's own conversion, defined on all of Unicode; it
  is not part of the repository and is taken as the parameter \<open>lower\<close> by the functions
  that call it. \<open>ascii_toLowerCase\<close> is the conversion on ASCII text; it instantiates
  \<open>lower\<close> where a definition is evaluated on concrete inputs. \<^verbatim>\<open>a.includes(b)\<close>
  holds when \<open>b\<close> occurs in \<open>a\<close> as a contiguous part.
\<close>

type_synonym lowercase = "string \<Rightarrow> string"

definition lower_char :: "char \<Rightarrow> char" where
  "lower_char c = (if 65 \<le> (of_char c :: nat) \<and> (of_char c :: nat) \<le> 90
                   then char_of ((of_char c :: nat) + 32) else c)"

definition ascii_toLowerCase :: lowercase where
  "ascii_toLowerCase s = map lower_char s"

definition str_includes :: "string \<Rightarrow> string \<Rightarrow> bool" where
  "str_includes a b = sublist b a"

text \<open>A hexadecimal digit, as in the pattern \<^verbatim>\<open>/^[0-9a-fA-F]{24}$/\<close>.\<close>

definition is_hex :: "char \<Rightarrow> bool" where
  "is_hex c = (let k = (of_char c :: nat)
               in (48 \<le> k \<and> k \<le> 57) \<or> (65 \<le> k \<and> k \<le> 70) \<or> (97 \<le> k \<and> k \<le> 102))"

section \<open>Entities\<close>

text \<open>
  The entity types of \<^verbatim>\<open>shared/schema.ts\<close>. An entity is its insert payload extended
  by the fields the storage layer adds, as in \<^verbatim>\<open>{ ...insertUser, id, joinedAt }\<close>.
  Dates are time stamps. The structured presentation fields of a service
  (\<^verbatim>\<open>timeSlots\<close>, \<^verbatim>\<open>availableDates\<close>) are not inspected by any storage operation
  and are left out.
\<close>

record insert_user =
  u_name :: string
  u_username :: string
  u_email :: string
  u_password :: string
  u_role :: string
  u_profileImage :: "string option"
  u_phone :: "string option"
  u_bio :: "string option"
  u_location :: "string option"

record user = insert_user +
  u_id :: jsval
  u_joinedAt :: nat

record insert_vendor =
  v_userId :: jsval
  v_businessName :: string
  v_category :: string
  v_description :: string
  v_services :: "string list option"
  v_businessHours :: "(string \<times> string) list option"
  v_coverImage :: "string option"

record vendor = insert_vendor +
  v_id :: jsval
  v_rating :: int
  v_reviewCount :: int

record insert_service =
  s_vendorId :: jsval
  s_name :: string
  s_category :: string
  s_description :: string
  s_price :: string
  s_duration :: "string option"
  s_location :: "string option"
  s_imageUrl :: "string option"
  s_availability :: bool

record service = insert_service +
  s_id :: jsval

record insert_booking =
  b_userId :: jsval
  b_vendorId :: jsval
  b_serviceId :: jsval
  b_date :: nat
  b_status :: string
  b_notes :: "string option"

record booking = insert_booking +
  b_id :: jsval

record insert_review =
  r_userId :: jsval
  r_vendorId :: jsval
  r_rating :: int
  r_comment :: "string option"

record review = insert_review +
  r_id :: jsval
  r_createdAt :: nat

text \<open>
  An update payload (\<^verbatim>\<open>Partial<InsertUser>\<close> and its siblings) is applied by a spread
  \<^verbatim>\<open>{ ...existing, ...data }\<close> or by \<^verbatim>\<open>$set\<close>; it is modelled by the function that
  overwrites the fields it carries.
\<close>

type_synonym 'a patch = "'a \<Rightarrow> 'a"

section \<open>The in-memory store (class MemStorage)\<close>

text \<open>
  A JavaScript \<^verbatim>\<open>Map<number, T>\<close> keeps its entries in insertion order, \<^verbatim>\<open>set\<close>
  on a present key replaces the value in place and on a new key appends. This is an
  association list with \<open>AList.update\<close>. A lookup with a key that is not a number finds
  nothing, since every key the class inserts is a counter value.
\<close>

record mem =
  m_users :: "(int \<times> user) list"
  m_vendors :: "(int \<times> vendor) list"
  m_services :: "(int \<times> service) list"
  m_bookings :: "(int \<times> booking) list"
  m_reviews :: "(int \<times> review) list"
  userIdCounter :: int
  vendorIdCounter :: int
  serviceIdCounter :: int
  bookingIdCounter :: int
  reviewIdCounter :: int

definition Mem_new :: mem where
  "Mem_new = \<lparr>m_users = [], m_vendors = [], m_services = [], m_bookings = [], m_reviews = [],
     userIdCounter = 1, vendorIdCounter = 1, serviceIdCounter = 1, bookingIdCounter = 1,
     reviewIdCounter = 1\<rparr>"

fun Map_get :: "(int \<times> 'a) list \<Rightarrow> jsval \<Rightarrow> 'a option" where
  "Map_get m (Num k) = map_of m k"
| "Map_get m other = None"

definition Map_values :: "(int \<times> 'a) list \<Rightarrow> 'a list" where
  "Map_values m = map snd m"

definition Mem_getUser :: "mem \<Rightarrow> jsval \<Rightarrow> user option" where
  "Mem_getUser s uid = Map_get (m_users s) uid"

definition Mem_createUser :: "mem \<Rightarrow> nat \<Rightarrow> insert_user \<Rightarrow> user \<times> mem" where
  "Mem_createUser s now insertUser =
     (let uid = userIdCounter s;
          usr = insert_user.extend insertUser (user.fields (Num uid) now)
      in (usr, s\<lparr>userIdCounter := uid + 1, m_users := AList.update uid usr (m_users s)\<rparr>))"

definition Mem_updateUser :: "mem \<Rightarrow> int \<Rightarrow> user patch \<Rightarrow> user option \<times> mem" where
  "Mem_updateUser s uid userData =
     (case map_of (m_users s) uid of
        None \<Rightarrow> (None, s)
      | Some existingUser \<Rightarrow>
          (let updatedUser = userData existingUser
           in (Some updatedUser, s\<lparr>m_users := AList.update uid updatedUser (m_users s)\<rparr>)))"

definition Mem_getVendor :: "mem \<Rightarrow> jsval \<Rightarrow> (vendor \<times> user) option" where
  "Mem_getVendor s vid =
     (case Map_get (m_vendors s) vid of
        None \<Rightarrow> None
      | Some vendor \<Rightarrow>
          (case Map_get (m_users s) (v_userId vendor) of
             None \<Rightarrow> None
           | Some usr \<Rightarrow> Some (vendor, usr)))"

definition Mem_getVendorByUserId :: "mem \<Rightarrow> jsval \<Rightarrow> vendor option" where
  "Mem_getVendorByUserId s userId =
     find (\<lambda>vendor. strict_eq (v_userId vendor) userId) (Map_values (m_vendors s))"

definition Mem_createVendor :: "mem \<Rightarrow> insert_vendor \<Rightarrow> vendor \<times> mem" where
  "Mem_createVendor s insertVendor =
     (let vid = vendorIdCounter s;
          vendor = insert_vendor.extend insertVendor (vendor.fields (Num vid) 0 0)
      in (vendor, s\<lparr>vendorIdCounter := vid + 1,
                     m_vendors := AList.update vid vendor (m_vendors s)\<rparr>))"

definition Mem_updateVendor :: "mem \<Rightarrow> int \<Rightarrow> vendor patch \<Rightarrow> vendor option \<times> mem" where
  "Mem_updateVendor s vid vendorData =
     (case map_of (m_vendors s) vid of
        None \<Rightarrow> (None, s)
      | Some existingVendor \<Rightarrow>
          (let updatedVendor = vendorData existingVendor
           in (Some updatedVendor,
               s\<lparr>m_vendors := AList.update vid updatedVendor (m_vendors s)\<rparr>)))"

text \<open>The loops of \<^verbatim>\<open>getAllVendors\<close> and \<^verbatim>\<open>searchVendors\<close> push onto a result array.\<close>

fun Mem_getAllVendors_loop :: "mem \<Rightarrow> vendor list \<Rightarrow> (vendor \<times> user) list \<Rightarrow> (vendor \<times> user) list"
  where
  "Mem_getAllVendors_loop s [] vendors = vendors"
| "Mem_getAllVendors_loop s (vendor # rest) vendors =
     (case Map_get (m_users s) (v_userId vendor) of
        Some usr \<Rightarrow> Mem_getAllVendors_loop s rest (vendors @ [(vendor, usr)])
      | None \<Rightarrow> Mem_getAllVendors_loop s rest vendors)"

definition Mem_getAllVendors :: "mem \<Rightarrow> (vendor \<times> user) list" where
  "Mem_getAllVendors s = Mem_getAllVendors_loop s (Map_values (m_vendors s)) []"




definition Mem_createService :: "mem \<Rightarrow> insert_service \<Rightarrow> service \<times> mem" where
  "Mem_createService s insertService =
     (let sid = serviceIdCounter s;
          srv = insert_service.extend insertService (service.fields (Num sid))
      in (srv, s\<lparr>serviceIdCounter := sid + 1,
                  m_services := AList.update sid srv (m_services s)\<rparr>))"

definition Mem_updateService :: "mem \<Rightarrow> int \<Rightarrow> service patch \<Rightarrow> service option \<times> mem" where
  "Mem_updateService s sid serviceData =
     (case map_of (m_services s) sid of
        None \<Rightarrow> (None, s)
      | Some existingService \<Rightarrow>
          (let updatedService = serviceData existingService
           in (Some updatedService,
               s\<lparr>m_services := AList.update sid updatedService (m_services s)\<rparr>)))"

definition Mem_deleteService :: "mem \<Rightarrow> int \<Rightarrow> bool \<times> mem" where
  "Mem_deleteService s sid =
     (case map_of (m_services s) sid of
        None \<Rightarrow> (False, s)
      | Some existing \<Rightarrow> (True, s\<lparr>m_services := AList.delete sid (m_services s)\<rparr>))"

definition Mem_createBooking :: "mem \<Rightarrow> insert_booking \<Rightarrow> booking \<times> mem" where
  "Mem_createBooking s insertBooking =
     (let bid = bookingIdCounter s;
          bkg = insert_booking.extend insertBooking (booking.fields (Num bid))
      in (bkg, s\<lparr>bookingIdCounter := bid + 1,
                  m_bookings := AList.update bid bkg (m_bookings s)\<rparr>))"

definition Mem_updateBookingStatus :: "mem \<Rightarrow> int \<Rightarrow> string \<Rightarrow> booking option \<times> mem" where
  "Mem_updateBookingStatus s bid status =
     (case map_of (m_bookings s) bid of
        None \<Rightarrow> (None, s)
      | Some bkg \<Rightarrow>
          (let updatedBooking = bkg\<lparr>b_status := status\<rparr>
           in (Some updatedBooking,
               s\<lparr>m_bookings := AList.update bid updatedBooking (m_bookings s)\<rparr>)))"

definition Mem_getReviewsByVendorId :: "mem \<Rightarrow> jsval \<Rightarrow> (review \<times> user) list" where
  "Mem_getReviewsByVendorId s vendorId =
     (let vendorReviews =
            filter (\<lambda>rv. strict_eq (r_vendorId rv) vendorId) (Map_values (m_reviews s))
      in List.map_filter
           (\<lambda>rv. map_option (Pair rv) (Map_get (m_users s) (r_userId rv))) vendorReviews)"

definition sum_ratings :: "(review \<times> user) list \<Rightarrow> int" where
  "sum_ratings vendorReviews = foldl (\<lambda>acc rv. acc + r_rating (fst rv)) 0 vendorReviews"

definition Mem_createReview :: "mem \<Rightarrow> nat \<Rightarrow> insert_review \<Rightarrow> review \<times> mem" where
  "Mem_createReview s now insertReview =
     (let rid = reviewIdCounter s;
          rev = insert_review.extend insertReview (review.fields (Num rid) now);
          s1 = s\<lparr>reviewIdCounter := rid + 1,
                 m_reviews := AList.update rid rev (m_reviews s)\<rparr>;
          vendorReviews = Mem_getReviewsByVendorId s1 (r_vendorId insertReview)
      in case r_vendorId insertReview of
           Num vid \<Rightarrow>
             (case map_of (m_vendors s1) vid of
                None \<Rightarrow> (rev, s1)
              | Some vendor \<Rightarrow>
                  (let reviewCount = int (length vendorReviews) + 1;
                       totalRating = sum_ratings vendorReviews + r_rating insertReview;
                       averageRating = Math_round_div totalRating reviewCount
                   in (rev, s1\<lparr>m_vendors := AList.update vid
                          (vendor\<lparr>v_rating := averageRating, v_reviewCount := reviewCount\<rparr>)
                          (m_vendors s1)\<rparr>)))
         | other \<Rightarrow> (rev, s1))"

definition Mem_getAverageRatingByVendorId :: "mem \<Rightarrow> jsval \<Rightarrow> int" where
  "Mem_getAverageRatingByVendorId s vendorId =
     (let vendorReviews = Mem_getReviewsByVendorId s vendorId
      in if length vendorReviews = 0 then 0
         else Math_round_div (sum_ratings vendorReviews) (int (length vendorReviews)))"

section \<open>The document store (class MongoDBStorage)\<close>

text \<open>
  A collection is the list of its stored documents in insertion order. The storage layer
  reaches a collection through the model that \<^verbatim>\<open>db.ts\<close> declares for it, and the schema
  of the model decides what is written, what is read back and how a filter is understood.

  \<^item> \<^bold>\<open>ObjectId paths.\<close> \<^verbatim>\<open>userId\<close> of vendors, bookings and reviews is declared
    \<^verbatim>\<open>ObjectId\<close> and required; \<^verbatim>\<open>_id\<close> of every document is an ObjectId. Such a path
    takes an ObjectId, or a string of 24 hexadecimal digits, which is cast to the ObjectId
    it denotes, whatever the case of its letters; no other value casts
    (\<open>cast_ObjectId\<close>).
  \<^item> \<^bold>\<open>Writing.\<close> \<^verbatim>\<open>save\<close> casts the values of the new document to their paths and
    runs the validators: when the value of a required ObjectId path does not cast, or the
    validator \<^verbatim>\<open>!isNaN(v) && v > 0\<close> of a numeric path (\<^verbatim>\<open>id\<close>, \<^verbatim>\<open>vendorId\<close>,
    \<^verbatim>\<open>serviceId\<close>) fails, \<^verbatim>\<open>save\<close> raises a validation error and stores nothing;
    otherwise it appends the document.
  \<^item> \<^bold>\<open>Reading.\<close> A document read from a collection shows, on an ObjectId path, the
    stored value cast to an ObjectId, and nothing (\<^verbatim>\<open>undefined\<close>) when the stored value
    does not cast (\<open>read_ObjectId\<close>). The numeric paths hold numbers in every document the
    storage layer writes and are read as stored.
  \<^item> \<^bold>\<open>Filters.\<close> \<^verbatim>\<open>findOne(filter)\<close> returns the first document, in collection order,
    that matches. The value of a filter on an ObjectId path is cast: a string of 24
    hexadecimal digits matches the documents that store the ObjectId it denotes, and a value
    that does not cast makes the query raise. \<^verbatim>\<open>findById(x)\<close> is the filter
    \<^verbatim>\<open>{_id: x}\<close>. A filter on a path the schema does not declare is passed to the
    collection as it is, and matches by equality of typed values.
  \<^item> \<^bold>\<open>Users.\<close> The user schema declares neither \<^verbatim>\<open>id\<close> nor \<^verbatim>\<open>createdAt\<close>. A value
    given for \<^verbatim>\<open>id\<close> when a user document is built is therefore not stored; reading
    \<^verbatim>\<open>.id\<close> of a user document gives the text of its \<^verbatim>\<open>_id\<close> (\<open>id_virtual\<close>); and
    the filter \<^verbatim>\<open>{id: v}\<close> matches the documents whose stored \<^verbatim>\<open>id\<close> field equals
    \<open>v\<close>. The field \<open>u_id\<close> of a user document is that stored field, \<open>Undefined\<close> when the
    document has none, as is the case of every document written by \<^verbatim>\<open>createUser\<close>;
    \<open>u_oid\<close> is the text of \<^verbatim>\<open>_id\<close>, and \<open>u_createdAt\<close> the stored \<^verbatim>\<open>createdAt\<close>
    key that the fallback query sorts by.
  \<^item> \<^bold>\<open>Sorting.\<close> \<^verbatim>\<open>findOne().sort({k: -1})\<close> returns the first document among those
    whose stored key is greatest, a missing key being smallest.

  Payloads reach the store validated by the caller, so required text fields are present.
  Connection failures and index violations are outside the model.
\<close>

record user_doc = user +
  u_oid :: string
  u_createdAt :: "nat option"

record mongo =
  d_users :: "user_doc list"
  d_vendors :: "vendor list"
  d_services :: "service list"
  d_bookings :: "booking list"
  d_reviews :: "review list"

datatype error =
    UserNotFoundNoFallback jsval
  | InvalidVendorId jsval
  | InvalidServiceId jsval
  | ValidationError
  | CastError

text \<open>The cast to an ObjectId, and the value read from an ObjectId path.\<close>

fun cast_ObjectId :: "jsval \<Rightarrow> string option" where
  "cast_ObjectId (Oid h) = Some h"
| "cast_ObjectId (Str t) =
     (if length t = 24 \<and> list_all is_hex t then Some (map lower_char t) else None)"
| "cast_ObjectId other = None"

definition read_ObjectId :: "jsval \<Rightarrow> jsval" where
  "read_ObjectId v = (case cast_ObjectId v of Some h \<Rightarrow> Oid h | None \<Rightarrow> Undefined)"

definition hydrate_vendor :: "vendor \<Rightarrow> vendor" where
  "hydrate_vendor stored = stored\<lparr>v_userId := read_ObjectId (v_userId stored)\<rparr>"

definition hydrate_review :: "review \<Rightarrow> review" where
  "hydrate_review stored = stored\<lparr>r_userId := read_ObjectId (r_userId stored)\<rparr>"

text \<open>\<^verbatim>\<open>user.id\<close> of a user document.\<close>

definition id_virtual :: "user_doc \<Rightarrow> jsval" where
  "id_virtual usr = Str (u_oid usr)"

fun first_max :: "('a \<Rightarrow> 'a \<Rightarrow> bool) \<Rightarrow> 'a list \<Rightarrow> 'a option" where
  "first_max lt [] = None"
| "first_max lt (x # xs) =
     (case first_max lt xs of
        None \<Rightarrow> Some x
      | Some y \<Rightarrow> if lt x y then Some y else Some x)"

fun str_lt :: "string \<Rightarrow> string \<Rightarrow> bool" where
  "str_lt [] [] = False"
| "str_lt [] (y # ys) = True"
| "str_lt (x # xs) [] = False"
| "str_lt (x # xs) (y # ys) = ((of_char x :: nat) < of_char y \<or> (x = y \<and> str_lt xs ys))"

text \<open>
  The store's comparison order across types: a missing value, then numbers (\<open>NaN\<close> below
  every number), then strings, then ObjectIds.
\<close>

fun sort_lt :: "jsval \<Rightarrow> jsval \<Rightarrow> bool" where
  "sort_lt Undefined b = (b \<noteq> Undefined)"
| "sort_lt NaN b = (b \<noteq> Undefined \<and> b \<noteq> NaN)"
| "sort_lt (Num m) (Num n) = (m < n)"
| "sort_lt (Num m) (Str t) = True"
| "sort_lt (Num m) (Oid t) = True"
| "sort_lt (Num m) b = False"
| "sort_lt (Str s) (Str t) = str_lt s t"
| "sort_lt (Str s) (Oid t) = True"
| "sort_lt (Str s) b = False"
| "sort_lt (Oid s) (Oid t) = str_lt s t"
| "sort_lt (Oid s) b = False"

fun date_lt :: "nat option \<Rightarrow> nat option \<Rightarrow> bool" where
  "date_lt None b = (b \<noteq> None)"
| "date_lt (Some m) None = False"
| "date_lt (Some m) (Some n) = (m < n)"

text \<open>\<^verbatim>\<open>Model.findOne().sort({ id: -1 })\<close> on each collection.\<close>

definition lastUser :: "mongo \<Rightarrow> user_doc option" where
  "lastUser s = first_max (\<lambda>a b. sort_lt (u_id a) (u_id b)) (d_users s)"

definition lastVendor :: "mongo \<Rightarrow> vendor option" where
  "lastVendor s = first_max (\<lambda>a b. sort_lt (v_id a) (v_id b)) (d_vendors s)"

definition lastService :: "mongo \<Rightarrow> service option" where
  "lastService s = first_max (\<lambda>a b. sort_lt (s_id a) (s_id b)) (d_services s)"


definition lastReview :: "mongo \<Rightarrow> review option" where
  "lastReview s = first_max (\<lambda>a b. sort_lt (r_id a) (r_id b)) (d_reviews s)"

text \<open>\<^verbatim>\<open>UserModel.findOne().sort({ createdAt: -1 })\<close>.\<close>

definition mostRecentUser :: "user_doc list \<Rightarrow> user_doc option" where
  "mostRecentUser us = first_max (\<lambda>a b. date_lt (u_createdAt a) (u_createdAt b)) us"

text \<open>
  \<^verbatim>\<open>UserModel.findById(x)\<close>. Every call of the storage layer stands inside a
  \<^verbatim>\<open>try\<close> whose handler leaves the user unset, so a value that does not cast finds
  nothing.
\<close>

definition findById :: "user_doc list \<Rightarrow> jsval \<Rightarrow> user_doc option" where
  "findById us x =
     (case cast_ObjectId x of Some h \<Rightarrow> find (\<lambda>u. u_oid u = h) us | None \<Rightarrow> None)"

text \<open>
  \<^verbatim>\<open>UserModel.findOne({ id: v })\<close>, a filter on the stored \<^verbatim>\<open>id\<close> field. A
  filter whose value is \<^verbatim>\<open>undefined\<close> selects no user.
\<close>

definition findUserByIdField :: "user_doc list \<Rightarrow> jsval \<Rightarrow> user_doc option" where
  "findUserByIdField us v = (if v = Undefined then None else find (\<lambda>u. u_id u = v) us)"

text \<open>
  The validator \<^verbatim>\<open>!isNaN(v) && v > 0\<close> of the numeric paths of \<^verbatim>\<open>db.ts\<close>, applied to
  the value cast to a number.
\<close>

definition valid_positive :: "str2num \<Rightarrow> jsval \<Rightarrow> bool" where
  "valid_positive toNum v = (case Number_js toNum v of Some n \<Rightarrow> 0 < n | None \<Rightarrow> False)"

definition cast_number :: "str2num \<Rightarrow> jsval \<Rightarrow> jsval" where
  "cast_number toNum v = of_number (Number_js toNum v)"

text \<open>\<^verbatim>\<open>findOneAndUpdate\<close> and \<^verbatim>\<open>deleteOne\<close>: the first matching document only.\<close>

fun findOneAndUpdate :: "('a \<Rightarrow> bool) \<Rightarrow> ('a \<Rightarrow> 'a) \<Rightarrow> 'a list \<Rightarrow> 'a option \<times> 'a list" where
  "findOneAndUpdate P f [] = (None, [])"
| "findOneAndUpdate P f (x # xs) =
     (if P x then (Some (f x), f x # xs)
      else (case findOneAndUpdate P f xs of (r, ys) \<Rightarrow> (r, x # ys)))"

fun deleteOne :: "('a \<Rightarrow> bool) \<Rightarrow> 'a list \<Rightarrow> nat \<times> 'a list" where
  "deleteOne P [] = (0, [])"
| "deleteOne P (x # xs) =
     (if P x then (1, xs) else (case deleteOne P xs of (n, ys) \<Rightarrow> (n, x # ys)))"

subsection \<open>Conversion of documents to entities\<close>

definition or_null :: "string option \<Rightarrow> string option" where
  "or_null x = (case x of Some t \<Rightarrow> (if t = [] then None else Some t) | None \<Rightarrow> None)"

definition mongoUserToUser :: "user_doc \<Rightarrow> user" where
  "mongoUserToUser mongoUser =
     \<lparr>u_name = u_name mongoUser, u_username = u_username mongoUser,
      u_email = u_email mongoUser, u_password = u_password mongoUser,
      u_role = (if u_role mongoUser = [] then ''user'' else u_role mongoUser),
      u_profileImage = or_null (u_profileImage mongoUser),
      u_phone = or_null (u_phone mongoUser),
      u_bio = or_null (u_bio mongoUser),
      u_location = or_null (u_location mongoUser),
      u_id = (if truthy (id_virtual mongoUser) then id_virtual mongoUser
              else Str (u_oid mongoUser)),
      u_joinedAt = u_joinedAt mongoUser\<rparr>"

text \<open>
  \<^verbatim>\<open>mongoVendorToVendor\<close>, applied to a vendor document as read; \<open>userIdNumber\<close> is the
  property that only \<^verbatim>\<open>getVendorByUserId\<close> attaches to the document.
\<close>

definition mongoVendorToVendor :: "int option \<Rightarrow> vendor \<Rightarrow> vendor" where
  "mongoVendorToVendor userIdNumber mongoVendor =
     mongoVendor\<lparr>v_userId :=
        (case v_userId mongoVendor of
           Oid h \<Rightarrow> (case userIdNumber of
                       Some n \<Rightarrow> (if n \<noteq> 0 then Num n else Str h)
                     | None \<Rightarrow> Str h)
         | other \<Rightarrow> other),
       v_coverImage := or_null (v_coverImage mongoVendor)\<rparr>"

definition mongoServiceToService :: "service \<Rightarrow> service" where
  "mongoServiceToService mongoService =
     mongoService\<lparr>s_duration := or_null (s_duration mongoService),
                  s_location := or_null (s_location mongoService),
                  s_imageUrl := or_null (s_imageUrl mongoService)\<rparr>"

definition mongoBookingToBooking :: "booking \<Rightarrow> booking" where
  "mongoBookingToBooking mongoBooking =
     mongoBooking\<lparr>b_serviceId :=
                    (if truthy (b_serviceId mongoBooking) then b_serviceId mongoBooking
                     else Undefined),
                  b_notes := or_null (b_notes mongoBooking)\<rparr>"

definition mongoReviewToReview :: "review \<Rightarrow> review" where
  "mongoReviewToReview mongoReview = mongoReview\<lparr>r_comment := or_null (r_comment mongoReview)\<rparr>"

subsection \<open>Users\<close>

text \<open>
  User resolution is a cascade of store queries. The functions that resolve a user return,
  next to the user found, the list of the queries they issued, in order, so that the order
  of the cascade can be stated.
\<close>

datatype query = FindById jsval | FindOneById jsval | FindMostRecent

text \<open>The test \<^verbatim>\<open>typeof id === 'string' && id.match(/^[0-9a-fA-F]{24}$/)\<close>.\<close>

definition is_hex24 :: "jsval \<Rightarrow> bool" where
  "is_hex24 v = (case v of Str t \<Rightarrow> length t = 24 \<and> list_all is_hex t | other \<Rightarrow> False)"

definition getUser_lookup :: "mongo \<Rightarrow> jsval \<Rightarrow> user_doc option \<times> query list" where
  "getUser_lookup s ident =
     (case findUserByIdField (d_users s) ident of
        Some usr \<Rightarrow> (Some usr, [FindOneById ident])
      | None \<Rightarrow>
          (if is_hex24 ident
           then (findById (d_users s) ident, [FindOneById ident, FindById ident])
           else (None, [FindOneById ident])))"

definition Mongo_getUser :: "mongo \<Rightarrow> jsval \<Rightarrow> user option" where
  "Mongo_getUser s ident = map_option mongoUserToUser (fst (getUser_lookup s ident))"

text \<open>
  \<^verbatim>\<open>const id = lastUser ? lastUser.id + 1 : 1\<close>, the first lines of \<^verbatim>\<open>createUser\<close>.
  \<^verbatim>\<open>lastUser.id\<close> is the text of the \<^verbatim>\<open>_id\<close> of that document.
\<close>

definition nextUserId :: "mongo \<Rightarrow> jsval" where
  "nextUserId s = (case lastUser s of Some l \<Rightarrow> plus_one (id_virtual l) | None \<Rightarrow> Num 1)"

text \<open>
  \<^verbatim>\<open>createUser\<close>. The value computed for \<^verbatim>\<open>id\<close> is handed to the document, which
  does not keep it; \<open>oid\<close> is the \<^verbatim>\<open>_id\<close> that the new document receives.
\<close>

definition Mongo_createUser :: "mongo \<Rightarrow> nat \<Rightarrow> string \<Rightarrow> insert_user \<Rightarrow> user \<times> mongo" where
  "Mongo_createUser s now oid insertUser =
     (let uid = nextUserId s;
          newUser = user.extend (insert_user.extend insertUser (user.fields Undefined now))
                      (user_doc.fields oid None)
      in (mongoUserToUser newUser, s\<lparr>d_users := d_users s @ [newUser]\<rparr>))"

definition Mongo_updateUser :: "mongo \<Rightarrow> int \<Rightarrow> user_doc patch \<Rightarrow> user option \<times> mongo" where
  "Mongo_updateUser s uid userData =
     (case findOneAndUpdate (\<lambda>u. u_id u = Num uid) userData (d_users s) of
        (updatedUser, us) \<Rightarrow> (map_option mongoUserToUser updatedUser, s\<lparr>d_users := us\<rparr>))"

subsection \<open>Vendors\<close>

text \<open>
  The join of \<^verbatim>\<open>getVendor\<close>, as a function of the value \<^verbatim>\<open>vendor.userId\<close> that the
  vendor document shows: three direct strategies, then the most recent user.
\<close>

definition getVendor_resolve :: "user_doc list \<Rightarrow> jsval \<Rightarrow> user_doc option \<times> query list" where
  "getVendor_resolve us userId =
     (let (user1, q1) =
            (if truthy userId \<and> length (String_js userId) = 24
             then (findById us userId, [FindById userId]) else (None, []));
          (user2, q2) =
            (if user1 = None \<and> typeof userId = TNumber
             then (findUserByIdField us userId, q1 @ [FindOneById userId]) else (user1, q1));
          (user3, q3) =
            (if user2 = None \<and> truthy userId
             then (findUserByIdField us (Str (String_js userId)),
                   q2 @ [FindOneById (Str (String_js userId))])
             else (user2, q2))
      in if user3 = None then (mostRecentUser us, q3 @ [FindMostRecent]) else (user3, q3))"

definition Mongo_getVendor :: "mongo \<Rightarrow> int \<Rightarrow> (vendor \<times> user) option" where
  "Mongo_getVendor s vid =
     (case find (\<lambda>v. v_id v = Num vid) (d_vendors s) of
        None \<Rightarrow> None
      | Some stored \<Rightarrow>
          (let vendor = hydrate_vendor stored
           in case fst (getVendor_resolve (d_users s) (v_userId vendor)) of
                None \<Rightarrow> None
              | Some usr \<Rightarrow> Some (mongoVendorToVendor None vendor, mongoUserToUser usr)))"

text \<open>
  The join of \<^verbatim>\<open>getAllVendors\<close>, repeated verbatim in \<^verbatim>\<open>searchVendors\<close>, as a
  function of the value \<^verbatim>\<open>vendor.userId\<close> that the vendor document shows. The loop runs
  over the vendor documents as read.
\<close>

definition listing_resolve :: "user_doc list \<Rightarrow> jsval \<Rightarrow> user_doc option" where
  "listing_resolve us userId =
     (let user1 =
            (if typeof userId = TObject \<or> (typeof userId = TString \<and> length (String_js userId) = 24)
             then findById us userId else None);
          user2 =
            (if user1 = None \<and> typeof userId = TNumber
             then findUserByIdField us userId else user1);
          user3 =
            (if user2 = None \<and> truthy userId
             then findUserByIdField us (Str (String_js userId)) else user2)
      in user3)"

fun listing_loop :: "user_doc list \<Rightarrow> vendor list \<Rightarrow> (vendor \<times> user) list \<Rightarrow> (vendor \<times> user) list"
  where
  "listing_loop us [] results = results"
| "listing_loop us (vendor # rest) results =
     (case listing_resolve us (v_userId vendor) of
        Some usr \<Rightarrow>
          listing_loop us rest (results @ [(mongoVendorToVendor None vendor, mongoUserToUser usr)])
      | None \<Rightarrow> listing_loop us rest results)"

definition Mongo_getAllVendors :: "mongo \<Rightarrow> (vendor \<times> user) list" where
  "Mongo_getAllVendors s = listing_loop (d_users s) (map hydrate_vendor (d_vendors s)) []"

text \<open>
  \<^verbatim>\<open>new RegExp(query, 'i')\<close> is the language's regular expression engine; it is the
  parameter \<open>regexp\<close>, which yields the test of the compiled pattern, or nothing when the
  pattern does not compile (the constructor throws, and \<^verbatim>\<open>searchVendors\<close> returns the
  empty list from its handler). \<open>substring_i\<close> is the engine on queries without
  metacharacters.
\<close>

type_synonym regexp = "string \<Rightarrow> (string \<Rightarrow> bool) option"

definition substring_i :: regexp where
  "substring_i query =
     Some (\<lambda>t. str_includes (ascii_toLowerCase t) (ascii_toLowerCase query))"

text \<open>
  The vendor of a user whose name matches. The three filters are
  \<^verbatim>\<open>{ userId: user.id }\<close>, \<^verbatim>\<open>{ userId: user._id }\<close> and
  \<^verbatim>\<open>{ userId: String(user.id) }\<close>; \<^verbatim>\<open>user.id\<close> is the text of \<^verbatim>\<open>user._id\<close>,
  which casts back to it, so all three select the vendors that store the user's
  \<^verbatim>\<open>_id\<close>. The vendor found stores an ObjectId and is read as stored.
\<close>

definition vendorOfUser :: "vendor list \<Rightarrow> user_doc \<Rightarrow> vendor option" where
  "vendorOfUser vs usr =
     (let vendor1 = find (\<lambda>v. v_userId v = Oid (u_oid usr)) vs;
          vendor2 = (if vendor1 = None then find (\<lambda>v. v_userId v = Oid (u_oid usr)) vs
                     else vendor1);
          vendor3 = (if vendor2 = None \<and> truthy (id_virtual usr)
                     then find (\<lambda>v. v_userId v = Oid (u_oid usr)) vs
                     else vendor2)
      in vendor3)"

fun byName_loop :: "vendor list \<Rightarrow> user_doc list \<Rightarrow> (vendor \<times> user) list \<Rightarrow> (vendor \<times> user) list"
  where
  "byName_loop vs [] results = results"
| "byName_loop vs (usr # rest) results =
     (case vendorOfUser vs usr of
        None \<Rightarrow> byName_loop vs rest results
      | Some vendor \<Rightarrow>
          (if list_ex (\<lambda>r. strict_eq (v_id (fst r)) (v_id vendor)) results
           then byName_loop vs rest results
           else byName_loop vs rest
                  (results @ [(mongoVendorToVendor None vendor, mongoUserToUser usr)])))"

definition Mongo_searchVendors :: "regexp \<Rightarrow> mongo \<Rightarrow> string \<Rightarrow> (vendor \<times> user) list" where
  "Mongo_searchVendors regexp s query =
     (case regexp query of
        None \<Rightarrow> []
      | Some searchRegex \<Rightarrow>
          (let vendors = filter (\<lambda>v. searchRegex (v_businessName v) \<or> searchRegex (v_category v)
                                      \<or> searchRegex (v_description v))
                           (map hydrate_vendor (d_vendors s));
               results = listing_loop (d_users s) vendors [];
               users = filter (\<lambda>u. searchRegex (u_name u)) (d_users s)
           in byName_loop (d_vendors s) users results))"

text \<open>
  \<^verbatim>\<open>getVendorByUserId\<close>: four strategies and no substitute when all of them miss. The
  filter of strategy 1 is cast; when the string does not cast, the query raises inside its
  own \<^verbatim>\<open>try\<close> and the vendor stays unset. The filter of strategy 4 is a number on the
  ObjectId path \<^verbatim>\<open>userId\<close>: it does not cast, the query raises, and the handler of
  the method returns \<^verbatim>\<open>undefined\<close>. A vendor found by its \<^verbatim>\<open>userId\<close> stores an
  ObjectId and is read as stored.
\<close>

definition nonzero :: "int option \<Rightarrow> bool" where
  "nonzero numericId = (case numericId of Some n \<Rightarrow> n \<noteq> 0 | None \<Rightarrow> False)"

definition Mongo_getVendorByUserId :: "str2num \<Rightarrow> mongo \<Rightarrow> jsval \<Rightarrow> vendor option" where
  "Mongo_getVendorByUserId toNum s userId =
     (let mongoObjectId =
            (if typeof userId = TString \<and> length (String_js userId) = 24 then Some userId else None);
          numericId =
            (if mongoObjectId = None \<and> (typeof userId = TNumber \<or> Number_js toNum userId \<noteq> None)
             then Number_js toNum userId else None);
          vendor1 = (case mongoObjectId of
                       Some oid \<Rightarrow>
                         (case cast_ObjectId oid of
                            Some h \<Rightarrow> find (\<lambda>v. v_userId v = Oid h) (d_vendors s)
                          | None \<Rightarrow> None)
                     | None \<Rightarrow> None);
          vendor2 = (if vendor1 = None \<and> nonzero numericId
                     then (case findUserByIdField (d_users s) (of_number numericId) of
                             Some usr \<Rightarrow> find (\<lambda>v. v_userId v = Oid (u_oid usr)) (d_vendors s)
                           | None \<Rightarrow> None)
                     else vendor1);
          vendor3 = (if vendor2 = None \<and> mongoObjectId \<noteq> None
                     then (case findById (d_users s) userId of
                             Some usr \<Rightarrow> find (\<lambda>v. v_userId v = Oid (u_oid usr)) (d_vendors s)
                           | None \<Rightarrow> None)
                     else vendor2);
          vendor4 = (if vendor3 = None \<and> nonzero numericId then Inl CastError
                     else Inr vendor3)
      in case vendor4 of
           Inl err \<Rightarrow> None
         | Inr None \<Rightarrow> None
         | Inr (Some vendor) \<Rightarrow>
             Some (mongoVendorToVendor (if nonzero numericId then numericId else None) vendor))"

text \<open>The resolution inside \<^verbatim>\<open>createVendor\<close>.\<close>

definition createVendor_resolve ::
  "str2num \<Rightarrow> user_doc list \<Rightarrow> jsval \<Rightarrow> user_doc option \<times> query list" where
  "createVendor_resolve toNum us userId =
     (let (user1, q1) =
            (if typeof userId = TString \<and> length (String_js userId) = 24
             then (findById us userId, [FindById userId]) else (None, []));
          (user2, q2) =
            (if user1 = None \<and> (typeof userId = TNumber \<or> Number_js toNum userId \<noteq> None)
             then (findUserByIdField us (of_number (Number_js toNum userId)),
                   q1 @ [FindOneById (of_number (Number_js toNum userId))])
             else (user1, q1));
          (user3, q3) =
            (if user2 = None \<and> typeof userId = TString
             then (findUserByIdField us userId, q2 @ [FindOneById userId]) else (user2, q2))
      in if user3 = None then (mostRecentUser us, q3 @ [FindMostRecent]) else (user3, q3))"

text \<open>
  The guarded computation of \<^verbatim>\<open>createVendor\<close>:
  \<^verbatim>\<open>nextId = !isNaN(lastId) ? lastId + 1 : 1\<close> with \<^verbatim>\<open>lastId = Number(lastVendor.id)\<close>.
\<close>

definition nextVendorId :: "str2num \<Rightarrow> mongo \<Rightarrow> int" where
  "nextVendorId toNum s =
     (case lastVendor s of
        None \<Rightarrow> 1
      | Some l \<Rightarrow> (case Number_js toNum (v_id l) of Some lastId \<Rightarrow> lastId + 1 | None \<Rightarrow> 1))"

definition Mongo_createVendor :: "str2num \<Rightarrow> mongo \<Rightarrow> insert_vendor \<Rightarrow> error + vendor \<times> mongo"
  where
  "Mongo_createVendor toNum s insertVendor =
     (let nextId = nextVendorId toNum s
      in case fst (createVendor_resolve toNum (d_users s) (v_userId insertVendor)) of
           None \<Rightarrow> Inl (UserNotFoundNoFallback (v_userId insertVendor))
         | Some usr \<Rightarrow>
             (let vendorData = insert_vendor.extend
                    (insertVendor\<lparr>v_userId := Oid (u_oid usr),
                       v_services := Some (case v_services insertVendor of Some l \<Rightarrow> l | None \<Rightarrow> []),
                       v_businessHours :=
                         Some (case v_businessHours insertVendor of Some h \<Rightarrow> h | None \<Rightarrow> [])\<rparr>)
                    (vendor.fields (Num nextId) 0 0)
              in if 0 < nextId
                 then Inr (mongoVendorToVendor None vendorData,
                           s\<lparr>d_vendors := d_vendors s @ [vendorData]\<rparr>)
                 else Inl ValidationError))"

definition Mongo_updateVendor :: "mongo \<Rightarrow> int \<Rightarrow> vendor patch \<Rightarrow> vendor option \<times> mongo" where
  "Mongo_updateVendor s vid vendorData =
     (case findOneAndUpdate (\<lambda>v. v_id v = Num vid) vendorData (d_vendors s) of
        (updatedVendor, vs) \<Rightarrow>
          (map_option (mongoVendorToVendor None) updatedVendor, s\<lparr>d_vendors := vs\<rparr>))"

subsection \<open>Services, bookings and reviews\<close>

text \<open>
  The identifier each creation computes first:
  \<^verbatim>\<open>const id = lastService ? lastService.id + 1 : 1\<close>, and the same for bookings and
  reviews.
\<close>

definition nextServiceId :: "mongo \<Rightarrow> jsval" where
  "nextServiceId s = (case lastService s of Some l \<Rightarrow> plus_one (s_id l) | None \<Rightarrow> Num 1)"


definition nextReviewId :: "mongo \<Rightarrow> jsval" where
  "nextReviewId s = (case lastReview s of Some l \<Rightarrow> plus_one (r_id l) | None \<Rightarrow> Num 1)"

definition Mongo_createService ::
  "str2num \<Rightarrow> mongo \<Rightarrow> insert_service \<Rightarrow> error + service \<times> mongo" where
  "Mongo_createService toNum s insertService =
     (let sid = nextServiceId s
      in case Number_js toNum (s_vendorId insertService) of
           None \<Rightarrow> Inl (InvalidVendorId (s_vendorId insertService))
         | Some vendorId \<Rightarrow>
             (let newService = insert_service.extend (insertService\<lparr>s_vendorId := Num vendorId\<rparr>)
                                 (service.fields (cast_number toNum sid))
              in if 0 < vendorId \<and> valid_positive toNum sid
                 then Inr (mongoServiceToService newService,
                           s\<lparr>d_services := d_services s @ [newService]\<rparr>)
                 else Inl ValidationError))"

definition Mongo_getServiceById :: "mongo \<Rightarrow> int \<Rightarrow> service option" where
  "Mongo_getServiceById s sid =
     map_option mongoServiceToService (find (\<lambda>x. s_id x = Num sid) (d_services s))"

definition Mongo_updateService :: "mongo \<Rightarrow> int \<Rightarrow> service patch \<Rightarrow> service option \<times> mongo" where
  "Mongo_updateService s sid serviceData =
     (case findOneAndUpdate (\<lambda>x. s_id x = Num sid) serviceData (d_services s) of
        (updatedService, xs) \<Rightarrow>
          (map_option mongoServiceToService updatedService, s\<lparr>d_services := xs\<rparr>))"

definition Mongo_deleteService :: "mongo \<Rightarrow> int \<Rightarrow> bool \<times> mongo" where
  "Mongo_deleteService s sid =
     (case deleteOne (\<lambda>x. s_id x = Num sid) (d_services s) of
        (deletedCount, xs) \<Rightarrow> (0 < deletedCount, s\<lparr>d_services := xs\<rparr>))"


definition Mongo_updateBookingStatus :: "mongo \<Rightarrow> int \<Rightarrow> string \<Rightarrow> booking option \<times> mongo"
  where
  "Mongo_updateBookingStatus s bid status =
     (case findOneAndUpdate (\<lambda>x. b_id x = Num bid) (\<lambda>x. x\<lparr>b_status := status\<rparr>) (d_bookings s) of
        (updatedBooking, xs) \<Rightarrow>
          (map_option mongoBookingToBooking updatedBooking, s\<lparr>d_bookings := xs\<rparr>))"

text \<open>
  \<^verbatim>\<open>getReviewsByVendorId\<close>. The loop runs over the review documents as read, and joins
  each with the user whose stored \<^verbatim>\<open>id\<close> field equals the review's \<^verbatim>\<open>userId\<close>; a
  review whose \<^verbatim>\<open>userId\<close> does not read back joins no user.
\<close>

fun reviews_loop :: "user_doc list \<Rightarrow> review list \<Rightarrow> (review \<times> user) list \<Rightarrow> (review \<times> user) list"
  where
  "reviews_loop us [] results = results"
| "reviews_loop us (rv # rest) results =
     (case findUserByIdField us (r_userId rv) of
        Some usr \<Rightarrow> reviews_loop us rest (results @ [(mongoReviewToReview rv, mongoUserToUser usr)])
      | None \<Rightarrow> reviews_loop us rest results)"

definition Mongo_getReviewsByVendorId :: "mongo \<Rightarrow> jsval \<Rightarrow> (review \<times> user) list" where
  "Mongo_getReviewsByVendorId s vendorId =
     reviews_loop (d_users s)
       (map hydrate_review (filter (\<lambda>rv. r_vendorId rv = vendorId) (d_reviews s))) []"

text \<open>\<^verbatim>\<open>createReview\<close>; \<^verbatim>\<open>userId\<close> is cast to an ObjectId when the review is saved.\<close>

definition Mongo_createReview ::
  "str2num \<Rightarrow> mongo \<Rightarrow> nat \<Rightarrow> insert_review \<Rightarrow> error + review \<times> mongo" where
  "Mongo_createReview toNum s now insertReview =
     (let rid = nextReviewId s
      in case Number_js toNum (r_vendorId insertReview) of
           None \<Rightarrow> Inl (InvalidVendorId (r_vendorId insertReview))
         | Some vendorId \<Rightarrow>
             (case cast_ObjectId (r_userId insertReview) of
                None \<Rightarrow> Inl ValidationError
              | Some h \<Rightarrow>
                  (let newReview = insert_review.extend
                         (insertReview\<lparr>r_userId := Oid h, r_vendorId := Num vendorId\<rparr>)
                         (review.fields (cast_number toNum rid) now)
                   in if \<not> (0 < vendorId \<and> valid_positive toNum rid) then Inl ValidationError
                      else
                        (let s1 = s\<lparr>d_reviews := d_reviews s @ [newReview]\<rparr>;
                             vendorReviews = Mongo_getReviewsByVendorId s1 (Num vendorId)
                         in case find (\<lambda>v. v_id v = Num vendorId) (d_vendors s1) of
                              None \<Rightarrow> Inr (mongoReviewToReview newReview, s1)
                            | Some vendor \<Rightarrow>
                                (let reviewCount = int (length vendorReviews) + 1;
                                     totalRating = sum_ratings vendorReviews
                                                     + r_rating insertReview;
                                     averageRating = Math_round_div totalRating reviewCount
                                 in Inr (mongoReviewToReview newReview,
                                         s1\<lparr>d_vendors := snd (findOneAndUpdate
                                               (\<lambda>v. v_id v = Num vendorId)
                                               (\<lambda>v. v\<lparr>v_rating := averageRating,
                                                      v_reviewCount := reviewCount\<rparr>)
                                               (d_vendors s1))\<rparr>))))))"

definition Mongo_getAverageRatingByVendorId :: "mongo \<Rightarrow> jsval \<Rightarrow> int" where
  "Mongo_getAverageRatingByVendorId s vendorId =
     (let reviews = filter (\<lambda>rv. r_vendorId rv = vendorId) (d_reviews s)
      in if length reviews = 0 then 0
         else Math_round_div (foldl (\<lambda>acc rv. acc + r_rating rv) 0 reviews) (int (length reviews)))"

section \<open>Service creation over HTTP (routes.ts, POST /api/services)\<close>

text \<open>
  \<^verbatim>\<open>authenticateToken\<close> sets \<^verbatim>\<open>req.user\<close> to the verified token payload, and
  \<^verbatim>\<open>generateToken\<close> builds that payload from the user's \<^verbatim>\<open>id\<close>, \<^verbatim>\<open>email\<close>,
  \<^verbatim>\<open>role\<close> and \<^verbatim>\<open>username\<close>. The handler also reads \<^verbatim>\<open>req.user.name\<close>; the
  field \<open>q_name\<close> is that property, \<open>Undefined\<close> when the payload has none. The
  \<^verbatim>\<open>id\<close> of a registered user, and so of the payload, is the text of the \<^verbatim>\<open>_id\<close> of
  the user's document. Signing and verification are not modelled: a valid token verifies to
  its payload.
\<close>

record req_user =
  q_id :: jsval
  q_email :: string
  q_role :: string
  q_username :: string
  q_name :: jsval

definition generateToken :: "user \<Rightarrow> req_user" where
  "generateToken usr = \<lparr>q_id = u_id usr, q_email = u_email usr, q_role = u_role usr,
     q_username = u_username usr, q_name = Undefined\<rparr>"

text \<open>\<^verbatim>\<open>insertServiceSchema.parse\<close>: the constraints of \<^verbatim>\<open>shared/schema.ts\<close>.\<close>

definition parse_insertService :: "insert_service \<Rightarrow> insert_service option" where
  "parse_insertService body =
     (if (case s_vendorId body of Num n \<Rightarrow> True | other \<Rightarrow> False)
         \<and> 2 \<le> length (s_name body) \<and> 10 \<le> length (s_description body)
      then Some body else None)"

datatype reply =
    Created service
  | Forbidden string
  | NotFound string
  | BadRequest
  | ServerError error

text \<open>
  The handler behind \<^verbatim>\<open>authorizeRole(['vendor'])\<close>. The identifiers it computes with
  \<^verbatim>\<open>getNextServiceId\<close> and from \<^verbatim>\<open>lastVendor\<close> are overwritten by
  \<^verbatim>\<open>createService\<close> and \<^verbatim>\<open>createVendor\<close> and so do not appear.
\<close>

definition defaultBusinessName :: "req_user \<Rightarrow> string" where
  "defaultBusinessName usr =
     (if truthy (q_name usr) then String_js (q_name usr) @ [CHR 39] @ ''s Business''
      else ''New Business'')"

definition defaultVendorProfile :: "req_user \<Rightarrow> insert_vendor" where
  "defaultVendorProfile usr =
     \<lparr>v_userId = q_id usr, v_businessName = defaultBusinessName usr,
      v_category = ''General Services'', v_description = ''A new vendor on VendorHive'',
      v_services = None, v_businessHours = None, v_coverImage = None\<rparr>"

definition post_services :: "str2num \<Rightarrow> mongo \<Rightarrow> req_user \<Rightarrow> insert_service \<Rightarrow> reply \<times> mongo"
  where
  "post_services toNum s usr body =
     (if q_role usr \<noteq> ''vendor'' then (Forbidden ''Forbidden: Insufficient permissions'', s)
      else
        (case Mongo_getVendorByUserId toNum s (q_id usr) of
           None \<Rightarrow>
             (if q_role usr = ''vendor''
              then
                (case Mongo_createVendor toNum s (defaultVendorProfile usr) of
                   Inl e \<Rightarrow>
                     (NotFound ''Vendor profile not found and automatic creation failed'', s)
                 | Inr (newVendor, s1) \<Rightarrow>
                     (case parse_insertService
                             (body\<lparr>s_vendorId := cast_number toNum (v_id newVendor)\<rparr>) of
                        None \<Rightarrow>
                          (NotFound ''Vendor profile not found and automatic creation failed'', s1)
                      | Some serviceData \<Rightarrow>
                          (case Mongo_createService toNum s1 serviceData of
                             Inl e \<Rightarrow>
                               (NotFound ''Vendor profile not found and automatic creation failed'',
                                s1)
                           | Inr (srv, s2) \<Rightarrow> (Created srv, s2))))
              else (NotFound ''Vendor profile not found and user is not a vendor'', s))
         | Some vendor \<Rightarrow>
             (case parse_insertService (body\<lparr>s_vendorId := cast_number toNum (v_id vendor)\<rparr>) of
                None \<Rightarrow> (BadRequest, s)
              | Some serviceData \<Rightarrow>
                  (if \<not> strict_eq (s_vendorId serviceData) (cast_number toNum (v_id vendor))
                   then (Forbidden ''You can only create services for your own vendor profile'', s)
                   else
                     (case Mongo_createService toNum s serviceData of
                        Inl e \<Rightarrow> (ServerError e, s)
                      | Inr (srv, s2) \<Rightarrow> (Created srv, s2))))))"

section \<open>Example data\<close>

definition anInsertUser :: "string \<Rightarrow> string \<Rightarrow> insert_user" where
  "anInsertUser name role = \<lparr>u_name = name, u_username = name, u_email = name @ ''@example.org'',
     u_password = ''secret'', u_role = role, u_profileImage = None, u_phone = None, u_bio = None,
     u_location = None\<rparr>"

definition anInsertVendor :: "jsval \<Rightarrow> string \<Rightarrow> insert_vendor" where
  "anInsertVendor userId businessName = \<lparr>v_userId = userId, v_businessName = businessName,
     v_category = ''General Services'', v_description = ''A vendor on the marketplace'',
     v_services = None, v_businessHours = None, v_coverImage = None\<rparr>"

definition anInsertReview :: "jsval \<Rightarrow> jsval \<Rightarrow> int \<Rightarrow> insert_review" where
  "anInsertReview userId vendorId rating = \<lparr>r_userId = userId, r_vendorId = vendorId,
     r_rating = rating, r_comment = None\<rparr>"

definition Mongo_new :: mongo where
  "Mongo_new = \<lparr>d_users = [], d_vendors = [], d_services = [], d_bookings = [], d_reviews = []\<rparr>"

definition the_store :: "error + 'a \<times> mongo \<Rightarrow> mongo" where
  "the_store r = (case r of Inr (x, s) \<Rightarrow> s | Inl e \<Rightarrow> Mongo_new)"

text \<open>One user, Alice, and one vendor without reviews, in each store.\<close>

definition mem_vendor0 :: mem where
  "mem_vendor0 =
     snd (Mem_createVendor (snd (Mem_createUser Mem_new 0 (anInsertUser ''Alice'' ''user'')))
            (anInsertVendor (Num 1) ''Acme''))"

definition db_vendor0 :: mongo where
  "db_vendor0 =
     the_store (Mongo_createVendor decimal
        (snd (Mongo_createUser Mongo_new 0 ''aaaaaaaaaaaaaaaaaaaaaaaa''
                (anInsertUser ''Alice'' ''user'')))
        (anInsertVendor (Num 1) ''Acme''))"

definition aUserDoc :: "jsval \<Rightarrow> string \<Rightarrow> string \<Rightarrow> nat option \<Rightarrow> user_doc" where
  "aUserDoc ident name oid createdAt =
     user.extend (insert_user.extend (anInsertUser name ''user'') (user.fields ident 0))
       (user_doc.fields oid createdAt)"

definition aVendorDoc :: "jsval \<Rightarrow> jsval \<Rightarrow> string \<Rightarrow> vendor" where
  "aVendorDoc ident userId businessName =
     insert_vendor.extend (anInsertVendor userId businessName) (vendor.fields ident 0 0)"

definition anInsertService :: "jsval \<Rightarrow> string \<Rightarrow> insert_service" where
  "anInsertService vendorId name = \<lparr>s_vendorId = vendorId, s_name = name,
     s_category = ''General Services'', s_description = ''A service on the marketplace'',
     s_price = ''10'', s_duration = None, s_location = None, s_imageUrl = None,
     s_availability = True\<rparr>"

definition aServiceDoc :: "jsval \<Rightarrow> jsval \<Rightarrow> string \<Rightarrow> service" where
  "aServiceDoc ident vendorId name =
     insert_service.extend (anInsertService vendorId name) (service.fields ident)"

definition anInsertBooking :: "jsval \<Rightarrow> jsval \<Rightarrow> jsval \<Rightarrow> insert_booking" where
  "anInsertBooking userId vendorId serviceId = \<lparr>b_userId = userId, b_vendorId = vendorId,
     b_serviceId = serviceId, b_date = 0, b_status = ''pending'', b_notes = None\<rparr>"

definition aBookingDoc :: "jsval \<Rightarrow> jsval \<Rightarrow> jsval \<Rightarrow> jsval \<Rightarrow> booking" where
  "aBookingDoc ident userId vendorId serviceId =
     insert_booking.extend (anInsertBooking userId vendorId serviceId) (booking.fields ident)"

definition aReviewDoc :: "jsval \<Rightarrow> jsval \<Rightarrow> jsval \<Rightarrow> int \<Rightarrow> review" where
  "aReviewDoc ident userId vendorId rating =
     insert_review.extend (anInsertReview userId vendorId rating) (review.fields ident 0)"

text \<open>
  A store whose vendors, services, bookings and reviews were inserted out of order; the
  greatest id is 5 in each of these collections. The users are as \<^verbatim>\<open>createUser\<close>
  writes them.
\<close>

definition db_unordered :: mongo where
  "db_unordered =
     \<lparr>d_users = [aUserDoc Undefined ''Alice'' ''aaaaaaaaaaaaaaaaaaaaaaaa'' None,
                 aUserDoc Undefined ''Bob'' ''bbbbbbbbbbbbbbbbbbbbbbbb'' None,
                 aUserDoc Undefined ''Carol'' ''cccccccccccccccccccccccc'' None],
      d_vendors = [aVendorDoc (Num 2) (Oid ''aaaaaaaaaaaaaaaaaaaaaaaa'') ''Acme'',
                   aVendorDoc (Num 5) (Oid ''bbbbbbbbbbbbbbbbbbbbbbbb'') ''Bolt'',
                   aVendorDoc (Num 3) (Oid ''cccccccccccccccccccccccc'') ''Cord''],
      d_services = [aServiceDoc (Num 2) (Num 2) ''Mowing'', aServiceDoc (Num 5) (Num 5) ''Wiring'',
                    aServiceDoc (Num 3) (Num 3) ''Roping''],
      d_bookings = [aBookingDoc (Num 2) (Oid ''aaaaaaaaaaaaaaaaaaaaaaaa'') (Num 5) (Num 5),
                    aBookingDoc (Num 5) (Oid ''cccccccccccccccccccccccc'') (Num 2) (Num 2),
                    aBookingDoc (Num 3) (Oid ''bbbbbbbbbbbbbbbbbbbbbbbb'') (Num 3) (Num 3)],
      d_reviews = [aReviewDoc (Num 2) (Oid ''aaaaaaaaaaaaaaaaaaaaaaaa'') (Num 5) 4,
                   aReviewDoc (Num 5) (Oid ''cccccccccccccccccccccccc'') (Num 2) 5,
                   aReviewDoc (Num 3) (Oid ''bbbbbbbbbbbbbbbbbbbbbbbb'') (Num 3) 3]\<rparr>"



text \<open>Two users registered one after the other through \<^verbatim>\<open>createUser\<close>.\<close>

definition db_two_users :: mongo where
  "db_two_users =
     snd (Mongo_createUser
            (snd (Mongo_createUser Mongo_new 10 ''aaaaaaaaaaaaaaaaaaaaaaaa''
                    (anInsertUser ''Alice'' ''user'')))
            20 ''bbbbbbbbbbbbbbbbbbbbbbbb'' (anInsertUser ''Bob'' ''vendor''))"

text \<open>
  Carol's native identifier is made of digits; Dave's document stores an \<^verbatim>\<open>id\<close> field
  that holds the same text.
\<close>

definition db_digits :: mongo where
  "db_digits = Mongo_new\<lparr>d_users :=
     [aUserDoc (Num 7) ''Carol'' ''111111111111111111111111'' None,
      aUserDoc (Str ''111111111111111111111111'') ''Dave'' ''dddddddddddddddddddddddd'' None]\<rparr>"

text \<open>Alice is the only user; the vendor Acme refers to a user that does not exist.\<close>

definition db_dangling :: mongo where
  "db_dangling = Mongo_new\<lparr>
     d_users := [aUserDoc (Num 1) ''Alice'' ''aaaaaaaaaaaaaaaaaaaaaaaa'' None],
     d_vendors := [aVendorDoc (Num 1) (Oid ''ffffffffffffffffffffffff'') ''Acme'']\<rparr>"

text \<open>Bob, registered with the vendor role, and the payload of his token.\<close>

definition bob :: user where
  "bob = fst (Mongo_createUser
            (snd (Mongo_createUser Mongo_new 10 ''aaaaaaaaaaaaaaaaaaaaaaaa''
                    (anInsertUser ''Alice'' ''user'')))
            20 ''bbbbbbbbbbbbbbbbbbbbbbbb'' (anInsertUser ''Bob'' ''vendor''))"

definition bob_token :: req_user where
  "bob_token = generateToken bob"


text \<open>
  Alice is the only user and owns the vendor Acme; the vendor Bolt stores the number 1 as
  its user reference, and Alice's document stores the \<^verbatim>\<open>id\<close> 1.
\<close>

definition db_numeric_ref :: mongo where
  "db_numeric_ref = Mongo_new\<lparr>
     d_users := [aUserDoc (Num 1) ''Alice'' ''aaaaaaaaaaaaaaaaaaaaaaaa'' None],
     d_vendors := [aVendorDoc (Num 1) (Oid ''aaaaaaaaaaaaaaaaaaaaaaaa'') ''Acme'',
                   aVendorDoc (Num 2) (Num 1) ''Bolt'']\<rparr>"

definition mem_bob :: mem where
  "mem_bob =
     (let s1 = snd (Mem_createUser Mem_new 0 (anInsertUser ''Alice'' ''user''));
          s2 = snd (Mem_createUser s1 0 (anInsertUser ''Bobby Smith'' ''vendor''));
          s3 = snd (Mem_createUser s2 0 (anInsertUser ''Bob Jones'' ''vendor''));
          s4 = snd (Mem_createVendor s3 (anInsertVendor (Num 1) (''Bob'' @ [CHR 39] @ ''s Plumbing'')));
          s5 = snd (Mem_createVendor s4 (anInsertVendor (Num 2) ''Ace Repairs''));
          s6 = snd (Mem_createVendor s5 (anInsertVendor (Num 3) ''Bobcat Hire''))
      in snd (Mem_createVendor s6 (anInsertVendor (Num 99) (''Bob'' @ [CHR 39] @ ''s Bakery''))))"


section \<open>Properties\<close>

subsection \<open>Aggregate maintenance on review creation\<close>

text \<open>
  Claim C1 (review aggregates). The claim: after the N-th review of a vendor the vendor has
  \<open>reviewCount = N\<close> and \<open>rating = round (mean)\<close>, in both storage implementations; after
  a first review of 5 it has rating 5 and count 1, after a second review of 1 it has rating
  3 and count 2.

  MemStorage stores the new review, then reads the vendor's reviews back (which now include
  the new one, its author being a known user) and adds the new review once more. On the
  scenario of the claim the counts are 2 and 3 and the second rating is
  \<open>round (7 / 3) = 2\<close>, while the vendor has two reviews and
  \<^verbatim>\<open>getAverageRatingByVendorId\<close>, which averages the stored reviews, returns 3.
  MongoDBStorage does not accept the first review at all: its author is given by number, as
  the signature of \<^verbatim>\<open>createReview\<close> declares, the review schema wants an ObjectId, and
  the vendor stays without rating and count.
\<close>

theorem createReview_counts_new_review_twice:
  "(let s1 = snd (Mem_createReview mem_vendor0 1 (anInsertReview (Num 1) (Num 1) 5));
        s2 = snd (Mem_createReview s1 2 (anInsertReview (Num 1) (Num 1) 1))
    in map (\<lambda>(k, v). (v_rating v, v_reviewCount v)) (m_vendors s1) = [(5, 2)]
       \<and> map (\<lambda>(k, v). (v_rating v, v_reviewCount v)) (m_vendors s2) = [(2, 3)]
       \<and> length (Mem_getReviewsByVendorId s2 (Num 1)) = 2
       \<and> Mem_getAverageRatingByVendorId s2 (Num 1) = 3)
   \<and> Mongo_createReview decimal db_vendor0 1 (anInsertReview (Num 1) (Num 1) 5)
       = Inl ValidationError
   \<and> map (\<lambda>v. (v_id v, v_rating v, v_reviewCount v)) (d_vendors db_vendor0) = [(Num 1, 0, 0)]"
  by code_simp

subsection \<open>Updates and deletions of entities that do not exist\<close>

lemma findOneAndUpdate_none:
  "\<forall>x\<in>set xs. \<not> P x \<Longrightarrow> findOneAndUpdate P f xs = (None, xs)"
  by (induction xs) auto

lemma deleteOne_none:
  "\<forall>x\<in>set xs. \<not> P x \<Longrightarrow> deleteOne P xs = (0, xs)"
  by (induction xs) auto

text \<open>
  Claim C9 (not found on write paths). When no stored entity has the given id,
  \<open>updateUser\<close>, \<open>updateVendor\<close>, \<open>updateService\<close> and \<open>updateBookingStatus\<close> return no
  entity (\<open>None\<close> is \<^verbatim>\<open>undefined\<close>), \<open>deleteService\<close> returns \<open>False\<close>, none of them
  raises (their result type has no error), and the store they return is the store they
  were given. Stated for the document store and for the in-memory store.
\<close>

theorem update_delete_of_missing_entity:
  "((\<forall>u\<in>set (d_users s). u_id u \<noteq> Num i) \<longrightarrow> Mongo_updateUser s i userData = (None, s))
   \<and> ((\<forall>v\<in>set (d_vendors s). v_id v \<noteq> Num i) \<longrightarrow> Mongo_updateVendor s i vendorData = (None, s))
   \<and> ((\<forall>x\<in>set (d_services s). s_id x \<noteq> Num i) \<longrightarrow>
         Mongo_updateService s i serviceData = (None, s) \<and> Mongo_deleteService s i = (False, s))
   \<and> ((\<forall>b\<in>set (d_bookings s). b_id b \<noteq> Num i) \<longrightarrow>
         Mongo_updateBookingStatus s i status = (None, s))
   \<and> (map_of (m_users m) i = None \<longrightarrow> Mem_updateUser m i userData' = (None, m))
   \<and> (map_of (m_vendors m) i = None \<longrightarrow> Mem_updateVendor m i vendorData = (None, m))
   \<and> (map_of (m_services m) i = None \<longrightarrow>
         Mem_updateService m i serviceData = (None, m) \<and> Mem_deleteService m i = (False, m))
   \<and> (map_of (m_bookings m) i = None \<longrightarrow> Mem_updateBookingStatus m i status = (None, m))"
  by (simp add: Mongo_updateUser_def Mongo_updateVendor_def Mongo_updateService_def
      Mongo_deleteService_def Mongo_updateBookingStatus_def findOneAndUpdate_none deleteOne_none
      Mem_updateUser_def Mem_updateVendor_def Mem_updateService_def Mem_deleteService_def
      Mem_updateBookingStatus_def)

theorem update_delete_of_missing_entity_witness:
  "Mongo_updateUser db_vendor0 7 (\<lambda>u. u\<lparr>u_name := ''Bob''\<rparr>) = (None, db_vendor0)
   \<and> Mongo_updateVendor db_vendor0 7 (\<lambda>v. v\<lparr>v_category := ''Garden''\<rparr>) = (None, db_vendor0)
   \<and> Mongo_updateService db_vendor0 7 (\<lambda>x. x\<lparr>s_price := ''10''\<rparr>) = (None, db_vendor0)
   \<and> Mongo_deleteService db_vendor0 7 = (False, db_vendor0)
   \<and> Mongo_updateBookingStatus db_vendor0 7 ''completed'' = (None, db_vendor0)
   \<and> Mem_updateUser mem_vendor0 7 (\<lambda>u. u\<lparr>u_name := ''Bob''\<rparr>) = (None, mem_vendor0)
   \<and> Mem_updateVendor mem_vendor0 7 (\<lambda>v. v\<lparr>v_category := ''Garden''\<rparr>) = (None, mem_vendor0)
   \<and> Mem_updateService mem_vendor0 7 (\<lambda>x. x\<lparr>s_price := ''10''\<rparr>) = (None, mem_vendor0)
   \<and> Mem_deleteService mem_vendor0 7 = (False, mem_vendor0)
   \<and> Mem_updateBookingStatus mem_vendor0 7 ''completed'' = (None, mem_vendor0)"
proof -
  have users: "\<forall>u\<in>set (d_users db_vendor0). u_id u \<noteq> Num 7" by code_simp
  have vendors: "\<forall>v\<in>set (d_vendors db_vendor0). v_id v \<noteq> Num 7" by code_simp
  have services: "\<forall>x\<in>set (d_services db_vendor0). s_id x \<noteq> Num 7" by code_simp
  have bookings: "\<forall>b\<in>set (d_bookings db_vendor0). b_id b \<noteq> Num 7" by code_simp
  have m1: "map_of (m_users mem_vendor0) 7 = None" by code_simp
  have m2: "map_of (m_vendors mem_vendor0) 7 = None" by code_simp
  have m3: "map_of (m_services mem_vendor0) 7 = None" by code_simp
  have m4: "map_of (m_bookings mem_vendor0) 7 = None" by code_simp
  show ?thesis
    using update_delete_of_missing_entity [of db_vendor0 7 _ _ _ _ mem_vendor0]
      users vendors services bookings m1 m2 m3 m4 by blast
qed


subsection \<open>Identifier allocation\<close>







lemma first_max_Nil_iff: "first_max lt xs = None \<longleftrightarrow> xs = []"
  by (induction xs) (auto split: option.splits)













subsection \<open>User resolution\<close>

lemma mostRecentUser_None_iff: "mostRecentUser us = None \<longleftrightarrow> us = []"
  by (simp add: mostRecentUser_def first_max_Nil_iff)

lemma findById_Nil [simp]: "findById [] x = None"
  by (simp add: findById_def split: option.splits)

lemma createVendor_resolve_None_iff:
  "fst (createVendor_resolve toNum us userId) = None \<longleftrightarrow> us = []"
proof
  assume "us = []"
  then show "fst (createVendor_resolve toNum us userId) = None"
    by (cases userId) (simp_all add: createVendor_resolve_def findUserByIdField_def
        mostRecentUser_def Let_def)
next
  assume "fst (createVendor_resolve toNum us userId) = None"
  then have "mostRecentUser us = None"
    by (auto simp: createVendor_resolve_def Let_def split: if_splits prod.splits)
  then show "us = []" by (simp add: mostRecentUser_None_iff)
qed

lemma getVendor_resolve_None_iff:
  "fst (getVendor_resolve us userId) = None \<longleftrightarrow> us = []"
proof
  assume "us = []"
  then show "fst (getVendor_resolve us userId) = None"
    by (cases userId) (simp_all add: getVendor_resolve_def findUserByIdField_def
        mostRecentUser_def Let_def)
next
  assume "fst (getVendor_resolve us userId) = None"
  then have "mostRecentUser us = None"
    by (auto simp: getVendor_resolve_def Let_def split: if_splits prod.splits)
  then show "us = []" by (simp add: mostRecentUser_None_iff)
qed

lemma Mongo_getVendor_None_iff:
  "find (\<lambda>v. v_id v = Num vid) (d_vendors s) = Some vd
     \<Longrightarrow> Mongo_getVendor s vid = None \<longleftrightarrow> d_users s = []"
  using getVendor_resolve_None_iff [of "d_users s" "v_userId (hydrate_vendor vd)"]
  by (auto simp: Mongo_getVendor_def Let_def split: option.splits)

text \<open>
  Claim C3 (fallback resolution). The claim: a user reference that no direct strategy
  matches resolves, when at least one user exists, to the most recently created user, and
  resolution fails only when no user exists.

  Resolution indeed fails exactly when the collection is empty
  (\<open>createVendor_resolve_None_iff\<close>, \<open>getVendor_resolve_None_iff\<close>). The user it
  substitutes is the first of the query \<^verbatim>\<open>findOne().sort({ createdAt: -1 })\<close>, and
  \<^verbatim>\<open>createUser\<close> records \<^verbatim>\<open>joinedAt\<close>, never \<^verbatim>\<open>createdAt\<close>. With Alice registered
  at time 10 and Bob at time 20, a reference matching neither resolves to Alice, the
  earliest user, in \<^verbatim>\<open>createVendor\<close> and in the join of \<^verbatim>\<open>getVendor\<close>.
\<close>

theorem fallback_returns_earliest_user:
  "map (\<lambda>u. (u_name u, u_joinedAt u, u_createdAt u)) (d_users db_two_users)
     = [(''Alice'', 10, None), (''Bob'', 20, None)]
   \<and> map_option u_name (fst (createVendor_resolve decimal (d_users db_two_users) (Num 99)))
       = Some ''Alice''
   \<and> snd (createVendor_resolve decimal (d_users db_two_users) (Num 99))
       = [FindOneById (Num 99), FindMostRecent]
   \<and> map v_userId (d_vendors (the_store (Mongo_createVendor decimal db_two_users
           (anInsertVendor (Num 99) ''Acme'')))) = [Oid ''aaaaaaaaaaaaaaaaaaaaaaaa'']
   \<and> map_option u_name (fst (getVendor_resolve (d_users db_two_users)
           (Oid ''ffffffffffffffffffffffff''))) = Some ''Alice''"
  by code_simp


lemma hex_chars:
  "char_of (48::nat) = CHR ''0''" "char_of (49::nat) = CHR ''1''" "char_of (50::nat) = CHR ''2''"
  "char_of (51::nat) = CHR ''3''" "char_of (52::nat) = CHR ''4''" "char_of (53::nat) = CHR ''5''"
  "char_of (54::nat) = CHR ''6''" "char_of (55::nat) = CHR ''7''" "char_of (56::nat) = CHR ''8''"
  "char_of (57::nat) = CHR ''9''"
  "char_of (65::nat) = CHR ''A''" "char_of (66::nat) = CHR ''B''" "char_of (67::nat) = CHR ''C''"
  "char_of (68::nat) = CHR ''D''" "char_of (69::nat) = CHR ''E''" "char_of (70::nat) = CHR ''F''"
  "char_of (97::nat) = CHR ''a''" "char_of (98::nat) = CHR ''b''" "char_of (99::nat) = CHR ''c''"
  "char_of (100::nat) = CHR ''d''" "char_of (101::nat) = CHR ''e''" "char_of (102::nat) = CHR ''f''"
  by code_simp+

lemma is_hex_iff: "is_hex c \<longleftrightarrow> c \<in> set ''0123456789abcdefABCDEF''"
proof
  assume "c \<in> set ''0123456789abcdefABCDEF''"
  then show "is_hex c" by (auto simp: is_hex_def)
next
  assume h: "is_hex c"
  define k where "k = (of_char c :: nat)"
  have c: "c = char_of k" by (simp add: k_def)
  from h have "(48 \<le> k \<and> k \<le> 57) \<or> (65 \<le> k \<and> k \<le> 70) \<or> (97 \<le> k \<and> k \<le> 102)"
    unfolding is_hex_def Let_def k_def [symmetric] .
  then have "k = 48 \<or> k = 49 \<or> k = 50 \<or> k = 51 \<or> k = 52 \<or> k = 53 \<or> k = 54 \<or> k = 55
     \<or> k = 56 \<or> k = 57 \<or> k = 65 \<or> k = 66 \<or> k = 67 \<or> k = 68 \<or> k = 69 \<or> k = 70
     \<or> k = 97 \<or> k = 98 \<or> k = 99 \<or> k = 100 \<or> k = 101 \<or> k = 102"
    by arith
  then show "c \<in> set ''0123456789abcdefABCDEF''"
    unfolding c by (elim disjE) (simp_all only: hex_chars, simp_all)
qed

lemma is_hex24_iff:
  "is_hex24 v \<longleftrightarrow> (\<exists>t. v = Str t \<and> length t = 24 \<and> set t \<subseteq> set ''0123456789abcdefABCDEF'')"
proof (cases v)
  case (Str t)
  then show ?thesis
    unfolding is_hex24_def list_all_iff is_hex_iff by (simp only: jsval.case jsval.inject) blast
qed (simp_all add: is_hex24_def)

lemma cast_ObjectId_Str:
  "length t = 24 \<Longrightarrow> set t \<subseteq> set ''0123456789abcdefABCDEF''
     \<Longrightarrow> cast_ObjectId (Str t) = Some (map lower_char t)"
proof -
  assume len: "length t = 24" and hex: "set t \<subseteq> set ''0123456789abcdefABCDEF''"
  have "list_all is_hex t" unfolding list_all_iff is_hex_iff using hex by blast
  then show ?thesis using len by simp
qed

lemma getUser_lookup_cases:
  "findUserByIdField (d_users s) ident = Some w
     \<Longrightarrow> getUser_lookup s ident = (Some w, [FindOneById ident])"
  "findUserByIdField (d_users s) (Str t) = None \<Longrightarrow> length t = 24
     \<Longrightarrow> set t \<subseteq> set ''0123456789abcdefABCDEF''
     \<Longrightarrow> getUser_lookup s (Str t)
           = (find (\<lambda>u. u_oid u = map lower_char t) (d_users s),
              [FindOneById (Str t), FindById (Str t)])"
  "findUserByIdField (d_users s) ident = None
     \<Longrightarrow> \<not> (\<exists>t. ident = Str t \<and> length t = 24 \<and> set t \<subseteq> set ''0123456789abcdefABCDEF'')
     \<Longrightarrow> getUser_lookup s ident = (None, [FindOneById ident])"
proof -
  show "getUser_lookup s ident = (Some w, [FindOneById ident])"
    if "findUserByIdField (d_users s) ident = Some w"
    using that by (simp add: getUser_lookup_def)
  show "getUser_lookup s (Str t)
           = (find (\<lambda>u. u_oid u = map lower_char t) (d_users s),
              [FindOneById (Str t), FindById (Str t)])"
    if "findUserByIdField (d_users s) (Str t) = None" "length t = 24"
      "set t \<subseteq> set ''0123456789abcdefABCDEF''"
  proof -
    have "is_hex24 (Str t)" using that(2,3) is_hex24_iff by blast
    moreover have "findById (d_users s) (Str t) = find (\<lambda>u. u_oid u = map lower_char t) (d_users s)"
      using cast_ObjectId_Str [OF that(2,3)] by (simp add: findById_def)
    ultimately show ?thesis using that(1) by (simp add: getUser_lookup_def)
  qed
  show "getUser_lookup s ident = (None, [FindOneById ident])"
    if "findUserByIdField (d_users s) ident = None"
      "\<not> (\<exists>t. ident = Str t \<and> length t = 24 \<and> set t \<subseteq> set ''0123456789abcdefABCDEF'')"
  proof -
    have "\<not> is_hex24 ident" using that(2) is_hex24_iff by blast
    then show ?thesis using that(1) by (simp add: getUser_lookup_def)
  qed
qed

text \<open>
  Claim C8 (cascade order). The claim: for a reference that has the native shape and is
  also numeric, user resolution tries the native lookup first and, when it succeeds, tries
  nothing else.

  \<^verbatim>\<open>getUser\<close> does the opposite: it queries the \<^verbatim>\<open>id\<close> field first and tries the
  native lookup only when that finds nothing. For the reference of 24 digits below, the
  native lookup would find Carol; \<^verbatim>\<open>createVendor\<close> finds her with that single query,
  while \<^verbatim>\<open>getUser\<close> returns Dave from the \<^verbatim>\<open>id\<close> field and never issues the native
  lookup. Without Dave in the store, \<^verbatim>\<open>getUser\<close> still queries the \<^verbatim>\<open>id\<close> field
  before the native lookup.
\<close>

theorem getUser_tries_id_field_first:
  "is_hex24 (Str ''111111111111111111111111'')
   \<and> decimal ''111111111111111111111111'' \<noteq> None
   \<and> map_option u_name (findById (d_users db_digits) (Str ''111111111111111111111111''))
       = Some ''Carol''
   \<and> map_option u_name (fst (createVendor_resolve decimal (d_users db_digits)
                               (Str ''111111111111111111111111''))) = Some ''Carol''
   \<and> snd (createVendor_resolve decimal (d_users db_digits) (Str ''111111111111111111111111''))
       = [FindById (Str ''111111111111111111111111'')]
   \<and> map_option u_name (fst (getUser_lookup db_digits (Str ''111111111111111111111111'')))
       = Some ''Dave''
   \<and> snd (getUser_lookup db_digits (Str ''111111111111111111111111''))
       = [FindOneById (Str ''111111111111111111111111'')]
   \<and> snd (getUser_lookup (db_digits\<lparr>d_users := take 1 (d_users db_digits)\<rparr>)
              (Str ''111111111111111111111111''))
       = [FindOneById (Str ''111111111111111111111111''),
          FindById (Str ''111111111111111111111111'')]"
  by code_simp

text \<open>
  Claim C8, amended. In \<^verbatim>\<open>createVendor\<close> and in the join of \<^verbatim>\<open>getVendor\<close>, a reference
  of the native shape (24 characters; numeric or not) is looked up natively first, and when
  that lookup finds a user it is the only query issued. \<^verbatim>\<open>getUser\<close> always starts with
  the \<^verbatim>\<open>id\<close> field and stops there when it finds a user. It issues the native lookup
  only when the \<^verbatim>\<open>id\<close> field finds nothing and the identifier is a string of 24
  hexadecimal digits; it then returns the user whose native identifier the string denotes,
  letters compared without regard to case. In every other case it issues the one query and
  finds nothing.
\<close>

theorem cascade_order:
  "(typeof userId = TString \<and> length (String_js userId) = 24 \<and> findById us userId = Some u
      \<longrightarrow> createVendor_resolve toNum us userId = (Some u, [FindById userId]))
   \<and> (truthy userId \<and> length (String_js userId) = 24 \<and> findById us userId = Some u
      \<longrightarrow> getVendor_resolve us userId = (Some u, [FindById userId]))
   \<and> (findUserByIdField (d_users s) ident = Some w
      \<longrightarrow> getUser_lookup s ident = (Some w, [FindOneById ident]))
   \<and> (findUserByIdField (d_users s) (Str t) = None \<and> length t = 24
        \<and> set t \<subseteq> set ''0123456789abcdefABCDEF''
      \<longrightarrow> getUser_lookup s (Str t)
            = (find (\<lambda>u. u_oid u = map lower_char t) (d_users s),
               [FindOneById (Str t), FindById (Str t)]))
   \<and> (findUserByIdField (d_users s) ident = None
        \<and> \<not> (\<exists>t. ident = Str t \<and> length t = 24 \<and> set t \<subseteq> set ''0123456789abcdefABCDEF'')
      \<longrightarrow> getUser_lookup s ident = (None, [FindOneById ident]))"
proof (intro conjI impI)
  show "createVendor_resolve toNum us userId = (Some u, [FindById userId])"
    if "typeof userId = TString \<and> length (String_js userId) = 24 \<and> findById us userId = Some u"
    using that by (simp add: createVendor_resolve_def)
  show "getVendor_resolve us userId = (Some u, [FindById userId])"
    if "truthy userId \<and> length (String_js userId) = 24 \<and> findById us userId = Some u"
    using that by (simp add: getVendor_resolve_def)
  show "getUser_lookup s ident = (Some w, [FindOneById ident])"
    if "findUserByIdField (d_users s) ident = Some w"
    using that by (rule getUser_lookup_cases)
  show "getUser_lookup s (Str t)
            = (find (\<lambda>u. u_oid u = map lower_char t) (d_users s),
               [FindOneById (Str t), FindById (Str t)])"
    if "findUserByIdField (d_users s) (Str t) = None \<and> length t = 24
        \<and> set t \<subseteq> set ''0123456789abcdefABCDEF''"
    using that getUser_lookup_cases(2) [of s t] by blast
  show "getUser_lookup s ident = (None, [FindOneById ident])"
    if "findUserByIdField (d_users s) ident = None
        \<and> \<not> (\<exists>t. ident = Str t \<and> length t = 24 \<and> set t \<subseteq> set ''0123456789abcdefABCDEF'')"
    using that getUser_lookup_cases(3) [of s ident] by blast
qed

theorem cascade_order_witness:
  "createVendor_resolve decimal (d_users db_digits) (Str ''111111111111111111111111'')
     = (Some (aUserDoc (Num 7) ''Carol'' ''111111111111111111111111'' None),
        [FindById (Str ''111111111111111111111111'')])
   \<and> getVendor_resolve (d_users db_digits) (Str ''111111111111111111111111'')
     = (Some (aUserDoc (Num 7) ''Carol'' ''111111111111111111111111'' None),
        [FindById (Str ''111111111111111111111111'')])
   \<and> getUser_lookup db_digits (Num 7)
     = (Some (aUserDoc (Num 7) ''Carol'' ''111111111111111111111111'' None),
        [FindOneById (Num 7)])
   \<and> map_option u_name (fst (getUser_lookup db_two_users (Str ''BBBBBBBBBBBBBBBBBBBBBBBB'')))
     = Some ''Bob''
   \<and> snd (getUser_lookup db_two_users (Str ''BBBBBBBBBBBBBBBBBBBBBBBB''))
     = [FindOneById (Str ''BBBBBBBBBBBBBBBBBBBBBBBB''), FindById (Str ''BBBBBBBBBBBBBBBBBBBBBBBB'')]
   \<and> getUser_lookup db_two_users (Str ''bob'') = (None, [FindOneById (Str ''bob'')])
   \<and> getUser_lookup db_two_users (Num 2) = (None, [FindOneById (Num 2)])"
proof -
  let ?carol = "aUserDoc (Num 7) ''Carol'' ''111111111111111111111111'' None"
  have h: "typeof (Str ''111111111111111111111111'') = TString"
    "truthy (Str ''111111111111111111111111'')"
    "length (String_js (Str ''111111111111111111111111'')) = 24"
    "findById (d_users db_digits) (Str ''111111111111111111111111'') = Some ?carol"
    "findUserByIdField (d_users db_digits) (Num 7) = Some ?carol"
    by code_simp+
  have b: "findUserByIdField (d_users db_two_users) (Str ''BBBBBBBBBBBBBBBBBBBBBBBB'') = None"
    "length ''BBBBBBBBBBBBBBBBBBBBBBBB'' = 24"
    "set ''BBBBBBBBBBBBBBBBBBBBBBBB'' \<subseteq> set ''0123456789abcdefABCDEF''"
    "map_option u_name (find (\<lambda>u. u_oid u = map lower_char ''BBBBBBBBBBBBBBBBBBBBBBBB'')
                          (d_users db_two_users)) = Some ''Bob''"
    by code_simp+
  have n: "findUserByIdField (d_users db_two_users) (Str ''bob'') = None"
    "findUserByIdField (d_users db_two_users) (Num 2) = None"
    by code_simp+
  have s: "\<not> (\<exists>t. Str ''bob'' = Str t \<and> length t = 24 \<and> set t \<subseteq> set ''0123456789abcdefABCDEF'')"
    "\<not> (\<exists>t. Num 2 = Str t \<and> length t = 24 \<and> set t \<subseteq> set ''0123456789abcdefABCDEF'')"
    by simp_all
  note one = cascade_order [where userId = "Str ''111111111111111111111111''"
      and us = "d_users db_digits" and toNum = decimal and s = db_digits and ident = "Num 7"
      and u = ?carol and w = ?carol]
  note two = cascade_order [where s = db_two_users and t = "''BBBBBBBBBBBBBBBBBBBBBBBB''"
      and ident = "Str ''bob''"]
  note three = cascade_order [where s = db_two_users and ident = "Num 2"]
  have r1: "createVendor_resolve decimal (d_users db_digits) (Str ''111111111111111111111111'')
              = (Some ?carol, [FindById (Str ''111111111111111111111111'')])"
    using one h by blast
  have r2: "getVendor_resolve (d_users db_digits) (Str ''111111111111111111111111'')
              = (Some ?carol, [FindById (Str ''111111111111111111111111'')])"
    using one h by blast
  have r3: "getUser_lookup db_digits (Num 7) = (Some ?carol, [FindOneById (Num 7)])"
    using one h by blast
  have r4: "getUser_lookup db_two_users (Str ''BBBBBBBBBBBBBBBBBBBBBBBB'')
              = (find (\<lambda>u. u_oid u = map lower_char ''BBBBBBBBBBBBBBBBBBBBBBBB'')
                   (d_users db_two_users),
                 [FindOneById (Str ''BBBBBBBBBBBBBBBBBBBBBBBB''),
                  FindById (Str ''BBBBBBBBBBBBBBBBBBBBBBBB'')])"
    using two b(1,2,3) by blast
  have r5: "getUser_lookup db_two_users (Str ''bob'') = (None, [FindOneById (Str ''bob'')])"
    using two n(1) s(1) by blast
  have r6: "getUser_lookup db_two_users (Num 2) = (None, [FindOneById (Num 2)])"
    using three n(2) s(2) by blast
  show ?thesis
    unfolding r1 r2 r3 r4 r5 r6 using b(4) by simp
qed

subsection \<open>Vendors joined with their users\<close>

lemma map_filter_map: "List.map_filter f (map g xs) = List.map_filter (\<lambda>x. f (g x)) xs"
  by (induction xs) (auto simp: List.map_filter_simps split: option.splits)

lemma listing_loop_eq:
  "listing_loop us vs acc =
     acc @ List.map_filter
             (\<lambda>vd. map_option (\<lambda>u. (mongoVendorToVendor None vd, mongoUserToUser u))
                      (listing_resolve us (v_userId vd))) vs"
  by (induction vs arbitrary: acc) (auto simp: List.map_filter_simps split: option.splits)

lemma listing_loop_read:
  "listing_loop us (map hydrate_vendor vs) acc =
     acc @ List.map_filter
             (\<lambda>vd. map_option (\<lambda>u. (mongoVendorToVendor None (hydrate_vendor vd), mongoUserToUser u))
                      (listing_resolve us (read_ObjectId (v_userId vd)))) vs"
  by (simp add: listing_loop_eq map_filter_map hydrate_vendor_def)

lemma filter_hydrate:
  "filter (\<lambda>v. rx (v_businessName v) \<or> rx (v_category v) \<or> rx (v_description v))
       (map hydrate_vendor vs)
     = map hydrate_vendor
         (filter (\<lambda>v. rx (v_businessName v) \<or> rx (v_category v) \<or> rx (v_description v)) vs)"
  by (induction vs) (auto simp: hydrate_vendor_def)

lemma getVendor_resolve_cases:
  "truthy r \<and> length (String_js r) = 24 \<and> findById us r = Some u
     \<Longrightarrow> fst (getVendor_resolve us r) = Some u"
  "(truthy r \<and> length (String_js r) = 24 \<longrightarrow> findById us r = None)
     \<and> typeof r = TNumber \<and> findUserByIdField us r = Some u
     \<Longrightarrow> fst (getVendor_resolve us r) = Some u"
  "(truthy r \<and> length (String_js r) = 24 \<longrightarrow> findById us r = None)
     \<and> (typeof r = TNumber \<longrightarrow> findUserByIdField us r = None)
     \<and> truthy r \<and> findUserByIdField us (Str (String_js r)) = Some u
     \<Longrightarrow> fst (getVendor_resolve us r) = Some u"
  "(truthy r \<and> length (String_js r) = 24 \<longrightarrow> findById us r = None)
     \<and> (typeof r = TNumber \<longrightarrow> findUserByIdField us r = None)
     \<and> (truthy r \<longrightarrow> findUserByIdField us (Str (String_js r)) = None)
     \<Longrightarrow> fst (getVendor_resolve us r) = mostRecentUser us"
  by (auto simp: getVendor_resolve_def Let_def)

lemma listing_resolve_cases:
  "(typeof r = TObject \<or> (typeof r = TString \<and> length (String_js r) = 24))
     \<and> findById us r = Some u
     \<Longrightarrow> listing_resolve us r = Some u"
  "((typeof r = TObject \<or> (typeof r = TString \<and> length (String_js r) = 24))
        \<longrightarrow> findById us r = None)
     \<and> typeof r = TNumber \<and> findUserByIdField us r = Some u
     \<Longrightarrow> listing_resolve us r = Some u"
  "((typeof r = TObject \<or> (typeof r = TString \<and> length (String_js r) = 24))
        \<longrightarrow> findById us r = None)
     \<and> (typeof r = TNumber \<longrightarrow> findUserByIdField us r = None)
     \<and> truthy r \<and> findUserByIdField us (Str (String_js r)) = Some u
     \<Longrightarrow> listing_resolve us r = Some u"
  "((typeof r = TObject \<or> (typeof r = TString \<and> length (String_js r) = 24))
        \<longrightarrow> findById us r = None)
     \<and> (typeof r = TNumber \<longrightarrow> findUserByIdField us r = None)
     \<and> (truthy r \<longrightarrow> findUserByIdField us (Str (String_js r)) = None)
     \<Longrightarrow> listing_resolve us r = None"
  by (auto simp: listing_resolve_def Let_def)

lemma Mongo_getVendor_eq:
  "find (\<lambda>v. v_id v = Num vid) (d_vendors s) = Some vd
     \<Longrightarrow> Mongo_getVendor s vid =
           map_option (\<lambda>u. (mongoVendorToVendor None (hydrate_vendor vd), mongoUserToUser u))
             (fst (getVendor_resolve (d_users s) (read_ObjectId (v_userId vd))))"
  by (simp add: Mongo_getVendor_def Let_def hydrate_vendor_def split: option.splits)

lemma byName_loop_prefix: "\<exists>extra. byName_loop vs us acc = acc @ extra"
proof (induction us arbitrary: acc)
  case Nil
  then show ?case by simp
next
  case (Cons u us)
  show ?case
  proof (cases "vendorOfUser vs u")
    case None
    then show ?thesis using Cons.IH [of acc] by simp
  next
    case (Some vd)
    show ?thesis
    proof (cases "list_ex (\<lambda>r. strict_eq (v_id (fst r)) (v_id vd)) acc")
      case True
      then show ?thesis using Some Cons.IH [of acc] by simp
    next
      case False
      then show ?thesis
        using Some Cons.IH [of "acc @ [(mongoVendorToVendor None vd, mongoUserToUser u)]"]
        by auto
    qed
  qed
qed

text \<open>
  Claim C2 (symmetric joins). The claim: \<^verbatim>\<open>getVendor\<close>, \<^verbatim>\<open>getAllVendors\<close> and
  \<^verbatim>\<open>searchVendors\<close> resolve a vendor's user by the same four strategies, the last being
  the most recent user, so that a vendor is left out only when no user exists.

  Only \<^verbatim>\<open>getVendor\<close> has the fourth strategy. With Alice the only user and a vendor
  whose reference matches nobody, \<^verbatim>\<open>getVendor\<close> returns the vendor joined with Alice,
  while \<^verbatim>\<open>getAllVendors\<close> and \<^verbatim>\<open>searchVendors\<close> leave it out.
\<close>

theorem listing_excludes_unresolved_vendor:
  "map u_name (d_users db_dangling) = [''Alice'']
   \<and> map v_businessName (d_vendors db_dangling) = [''Acme'']
   \<and> map_option (\<lambda>(v, u). (v_businessName v, u_name u)) (Mongo_getVendor db_dangling 1)
       = Some (''Acme'', ''Alice'')
   \<and> Mongo_getAllVendors db_dangling = []
   \<and> Mongo_searchVendors substring_i db_dangling ''acme'' = []"
  by code_simp

text \<open>
  Claim C2, amended. The three methods join a vendor with the user that the reference
  \<open>r\<close> read from the vendor document resolves to (\<open>r\<close> is the stored reference cast to an
  ObjectId, or nothing when it does not cast).

  \<^verbatim>\<open>getVendor\<close> resolves \<open>r\<close> to the user that the native lookup finds, tried when \<open>r\<close>
  is truthy and its text has 24 characters; failing that, to the user whose \<^verbatim>\<open>id\<close> is
  \<open>r\<close>, tried when \<open>r\<close> is a number; failing that, to the user whose \<^verbatim>\<open>id\<close> is the text
  of \<open>r\<close>, tried when \<open>r\<close> is truthy; failing that, to the most recent user. It returns
  not-found for a stored vendor exactly when no user exists.

  \<^verbatim>\<open>getAllVendors\<close> returns, in order, the vendors whose reference one of the three
  direct strategies resolves (the native lookup being tried when \<open>r\<close> is an object or a
  string of 24 characters), and \<^verbatim>\<open>searchVendors\<close> starts with the same join over the
  vendors whose own fields match (what follows comes from the search by user name).
  Neither has a fallback: a vendor is left out when the three strategies, each under its
  guard, all find nothing.
\<close>

theorem vendor_user_joins:
  "(find (\<lambda>v. v_id v = Num vid) (d_vendors s) = Some vd \<longrightarrow>
      Mongo_getVendor s vid =
        map_option (\<lambda>u. (mongoVendorToVendor None (hydrate_vendor vd), mongoUserToUser u))
          (fst (getVendor_resolve (d_users s) (read_ObjectId (v_userId vd))))
      \<and> (Mongo_getVendor s vid = None \<longleftrightarrow> d_users s = []))
   \<and> (truthy r \<and> length (String_js r) = 24 \<and> findById us r = Some u
        \<longrightarrow> fst (getVendor_resolve us r) = Some u)
   \<and> ((truthy r \<and> length (String_js r) = 24 \<longrightarrow> findById us r = None)
        \<and> typeof r = TNumber \<and> findUserByIdField us r = Some u
        \<longrightarrow> fst (getVendor_resolve us r) = Some u)
   \<and> ((truthy r \<and> length (String_js r) = 24 \<longrightarrow> findById us r = None)
        \<and> (typeof r = TNumber \<longrightarrow> findUserByIdField us r = None)
        \<and> truthy r \<and> findUserByIdField us (Str (String_js r)) = Some u
        \<longrightarrow> fst (getVendor_resolve us r) = Some u)
   \<and> ((truthy r \<and> length (String_js r) = 24 \<longrightarrow> findById us r = None)
        \<and> (typeof r = TNumber \<longrightarrow> findUserByIdField us r = None)
        \<and> (truthy r \<longrightarrow> findUserByIdField us (Str (String_js r)) = None)
        \<longrightarrow> fst (getVendor_resolve us r) = mostRecentUser us)
   \<and> Mongo_getAllVendors s =
       List.map_filter
         (\<lambda>vd. map_option (\<lambda>u. (mongoVendorToVendor None (hydrate_vendor vd), mongoUserToUser u))
                  (listing_resolve (d_users s) (read_ObjectId (v_userId vd)))) (d_vendors s)
   \<and> (regexp query = Some searchRegex \<longrightarrow>
        (\<exists>byName. Mongo_searchVendors regexp s query =
           List.map_filter
             (\<lambda>vd. map_option
                      (\<lambda>u. (mongoVendorToVendor None (hydrate_vendor vd), mongoUserToUser u))
                      (listing_resolve (d_users s) (read_ObjectId (v_userId vd))))
             (filter (\<lambda>v. searchRegex (v_businessName v) \<or> searchRegex (v_category v)
                           \<or> searchRegex (v_description v)) (d_vendors s))
           @ byName))
   \<and> ((typeof r = TObject \<or> (typeof r = TString \<and> length (String_js r) = 24))
        \<and> findById us r = Some u
        \<longrightarrow> listing_resolve us r = Some u)
   \<and> (((typeof r = TObject \<or> (typeof r = TString \<and> length (String_js r) = 24))
           \<longrightarrow> findById us r = None)
        \<and> typeof r = TNumber \<and> findUserByIdField us r = Some u
        \<longrightarrow> listing_resolve us r = Some u)
   \<and> (((typeof r = TObject \<or> (typeof r = TString \<and> length (String_js r) = 24))
           \<longrightarrow> findById us r = None)
        \<and> (typeof r = TNumber \<longrightarrow> findUserByIdField us r = None)
        \<and> truthy r \<and> findUserByIdField us (Str (String_js r)) = Some u
        \<longrightarrow> listing_resolve us r = Some u)
   \<and> (((typeof r = TObject \<or> (typeof r = TString \<and> length (String_js r) = 24))
           \<longrightarrow> findById us r = None)
        \<and> (typeof r = TNumber \<longrightarrow> findUserByIdField us r = None)
        \<and> (truthy r \<longrightarrow> findUserByIdField us (Str (String_js r)) = None)
        \<longrightarrow> listing_resolve us r = None)"
proof (intro conjI impI)
  assume f: "find (\<lambda>v. v_id v = Num vid) (d_vendors s) = Some vd"
  show "Mongo_getVendor s vid =
        map_option (\<lambda>u. (mongoVendorToVendor None (hydrate_vendor vd), mongoUserToUser u))
          (fst (getVendor_resolve (d_users s) (read_ObjectId (v_userId vd))))"
    using f by (rule Mongo_getVendor_eq)
  show "Mongo_getVendor s vid = None \<longleftrightarrow> d_users s = []"
    using f by (rule Mongo_getVendor_None_iff)
next
  show "Mongo_getAllVendors s =
       List.map_filter
         (\<lambda>vd. map_option (\<lambda>u. (mongoVendorToVendor None (hydrate_vendor vd), mongoUserToUser u))
                  (listing_resolve (d_users s) (read_ObjectId (v_userId vd)))) (d_vendors s)"
    by (simp add: Mongo_getAllVendors_def listing_loop_read)
next
  assume "regexp query = Some searchRegex"
  then show "\<exists>byName. Mongo_searchVendors regexp s query =
           List.map_filter
             (\<lambda>vd. map_option
                      (\<lambda>u. (mongoVendorToVendor None (hydrate_vendor vd), mongoUserToUser u))
                      (listing_resolve (d_users s) (read_ObjectId (v_userId vd))))
             (filter (\<lambda>v. searchRegex (v_businessName v) \<or> searchRegex (v_category v)
                           \<or> searchRegex (v_description v)) (d_vendors s))
           @ byName"
    using byName_loop_prefix
    by (simp add: Mongo_searchVendors_def filter_hydrate listing_loop_read)
next
  show "fst (getVendor_resolve us r) = Some u"
    if "truthy r \<and> length (String_js r) = 24 \<and> findById us r = Some u"
    using that by (rule getVendor_resolve_cases)
  show "fst (getVendor_resolve us r) = Some u"
    if "(truthy r \<and> length (String_js r) = 24 \<longrightarrow> findById us r = None)
        \<and> typeof r = TNumber \<and> findUserByIdField us r = Some u"
    using that by (rule getVendor_resolve_cases)
  show "fst (getVendor_resolve us r) = Some u"
    if "(truthy r \<and> length (String_js r) = 24 \<longrightarrow> findById us r = None)
        \<and> (typeof r = TNumber \<longrightarrow> findUserByIdField us r = None)
        \<and> truthy r \<and> findUserByIdField us (Str (String_js r)) = Some u"
    using that by (rule getVendor_resolve_cases)
  show "fst (getVendor_resolve us r) = mostRecentUser us"
    if "(truthy r \<and> length (String_js r) = 24 \<longrightarrow> findById us r = None)
        \<and> (typeof r = TNumber \<longrightarrow> findUserByIdField us r = None)
        \<and> (truthy r \<longrightarrow> findUserByIdField us (Str (String_js r)) = None)"
    using that by (rule getVendor_resolve_cases)
  show "listing_resolve us r = Some u"
    if "(typeof r = TObject \<or> (typeof r = TString \<and> length (String_js r) = 24))
        \<and> findById us r = Some u"
    using that by (rule listing_resolve_cases)
  show "listing_resolve us r = Some u"
    if "((typeof r = TObject \<or> (typeof r = TString \<and> length (String_js r) = 24))
           \<longrightarrow> findById us r = None)
        \<and> typeof r = TNumber \<and> findUserByIdField us r = Some u"
    using that by (rule listing_resolve_cases)
  show "listing_resolve us r = Some u"
    if "((typeof r = TObject \<or> (typeof r = TString \<and> length (String_js r) = 24))
           \<longrightarrow> findById us r = None)
        \<and> (typeof r = TNumber \<longrightarrow> findUserByIdField us r = None)
        \<and> truthy r \<and> findUserByIdField us (Str (String_js r)) = Some u"
    using that by (rule listing_resolve_cases)
  show "listing_resolve us r = None"
    if "((typeof r = TObject \<or> (typeof r = TString \<and> length (String_js r) = 24))
           \<longrightarrow> findById us r = None)
        \<and> (typeof r = TNumber \<longrightarrow> findUserByIdField us r = None)
        \<and> (truthy r \<longrightarrow> findUserByIdField us (Str (String_js r)) = None)"
    using that by (rule listing_resolve_cases)
qed

theorem vendor_user_joins_witness:
  "map_option (\<lambda>(v, u). (v_businessName v, u_name u)) (Mongo_getVendor db_dangling 1)
     = Some (''Acme'', ''Alice'')
   \<and> Mongo_getAllVendors db_dangling = []
   \<and> (\<exists>byName. Mongo_searchVendors substring_i db_dangling ''acme'' = byName)
   \<and> listing_resolve (d_users db_dangling) (Oid ''ffffffffffffffffffffffff'') = None
   \<and> map_option (\<lambda>(v, u). (v_businessName v, v_userId v, u_name u))
        (Mongo_getVendor db_numeric_ref 2) = Some (''Bolt'', Undefined, ''Alice'')
   \<and> map (\<lambda>(v, u). (v_businessName v, u_name u)) (Mongo_getAllVendors db_numeric_ref)
       = [(''Acme'', ''Alice'')]
   \<and> map_option u_name (fst (getVendor_resolve (d_users db_numeric_ref)
                                 (Oid ''aaaaaaaaaaaaaaaaaaaaaaaa''))) = Some ''Alice''
   \<and> map_option u_name (fst (getVendor_resolve (d_users db_numeric_ref) (Num 1))) = Some ''Alice''
   \<and> map_option u_name (listing_resolve (d_users db_numeric_ref) (Num 1)) = Some ''Alice''
   \<and> map_option u_name (fst (getVendor_resolve (drop 1 (d_users db_digits))
                                 (Oid ''111111111111111111111111''))) = Some ''Dave''
   \<and> map_option u_name (listing_resolve (drop 1 (d_users db_digits))
                            (Oid ''111111111111111111111111'')) = Some ''Dave''"
proof -
  let ?acme = "aVendorDoc (Num 1) (Oid ''ffffffffffffffffffffffff'') ''Acme''"
  let ?bolt = "aVendorDoc (Num 2) (Num 1) ''Bolt''"
  let ?alice = "aUserDoc (Num 1) ''Alice'' ''aaaaaaaaaaaaaaaaaaaaaaaa'' None"
  let ?dave = "aUserDoc (Str ''111111111111111111111111'') ''Dave'' ''dddddddddddddddddddddddd'' None"
  let ?ff = "Oid ''ffffffffffffffffffffffff''"
  let ?aa = "Oid ''aaaaaaaaaaaaaaaaaaaaaaaa''"
  let ?one = "Oid ''111111111111111111111111''"
  let ?rx = "\<lambda>t. str_includes (ascii_toLowerCase t) (ascii_toLowerCase ''acme'')"
  have f1: "find (\<lambda>v. v_id v = Num 1) (d_vendors db_dangling) = Some ?acme" by code_simp
  have rd1: "read_ObjectId (v_userId ?acme) = ?ff" by code_simp
  have miss1: "findById (d_users db_dangling) ?ff = None" "typeof ?ff \<noteq> TNumber"
    "findUserByIdField (d_users db_dangling) (Str (String_js ?ff)) = None" by code_simp+
  have recent1: "mostRecentUser (d_users db_dangling) = Some ?alice" by code_simp
  have rx: "substring_i ''acme'' = Some ?rx" by (simp add: substring_i_def)
  note A = vendor_user_joins [where s = db_dangling and vid = 1 and vd = ?acme
      and us = "d_users db_dangling" and r = ?ff and regexp = substring_i
      and query = "''acme''" and searchRegex = ?rx]
  have g1: "fst (getVendor_resolve (d_users db_dangling) ?ff) = Some ?alice"
    using A miss1 recent1 by simp
  have "Mongo_getVendor db_dangling 1
          = Some (mongoVendorToVendor None (hydrate_vendor ?acme), mongoUserToUser ?alice)"
    using A f1 rd1 g1 by simp
  moreover have "(\<lambda>(v, u). (v_businessName v, u_name u))
          (mongoVendorToVendor None (hydrate_vendor ?acme), mongoUserToUser ?alice)
        = (''Acme'', ''Alice'')" by code_simp
  ultimately have r1: "map_option (\<lambda>(v, u). (v_businessName v, u_name u))
          (Mongo_getVendor db_dangling 1) = Some (''Acme'', ''Alice'')" by simp
  have l1: "listing_resolve (d_users db_dangling) ?ff = None"
    using A miss1 by simp
  have "List.map_filter
         (\<lambda>vd. map_option (\<lambda>u. (mongoVendorToVendor None (hydrate_vendor vd), mongoUserToUser u))
                  (listing_resolve (d_users db_dangling) (read_ObjectId (v_userId vd))))
         (d_vendors db_dangling) = []" by code_simp
  then have r2: "Mongo_getAllVendors db_dangling = []" using A by simp
  have r3: "\<exists>byName. Mongo_searchVendors substring_i db_dangling ''acme'' = byName" by simp
  have f2: "find (\<lambda>v. v_id v = Num 2) (d_vendors db_numeric_ref) = Some ?bolt" by code_simp
  have rd2: "read_ObjectId (v_userId ?bolt) = Undefined" by code_simp
  have recent2: "mostRecentUser (d_users db_numeric_ref) = Some ?alice" by code_simp
  note B = vendor_user_joins [where s = db_numeric_ref and vid = 2 and vd = ?bolt
      and us = "d_users db_numeric_ref" and r = Undefined]
  have g2: "fst (getVendor_resolve (d_users db_numeric_ref) Undefined) = Some ?alice"
    using B recent2 by simp
  have "Mongo_getVendor db_numeric_ref 2
          = Some (mongoVendorToVendor None (hydrate_vendor ?bolt), mongoUserToUser ?alice)"
    using B f2 rd2 g2 by simp
  moreover have "(\<lambda>(v, u). (v_businessName v, v_userId v, u_name u))
          (mongoVendorToVendor None (hydrate_vendor ?bolt), mongoUserToUser ?alice)
        = (''Bolt'', Undefined, ''Alice'')" by code_simp
  ultimately have r4: "map_option (\<lambda>(v, u). (v_businessName v, v_userId v, u_name u))
        (Mongo_getVendor db_numeric_ref 2) = Some (''Bolt'', Undefined, ''Alice'')" by simp
  have "map (\<lambda>(v, u). (v_businessName v, u_name u)) (List.map_filter
         (\<lambda>vd. map_option (\<lambda>u. (mongoVendorToVendor None (hydrate_vendor vd), mongoUserToUser u))
                  (listing_resolve (d_users db_numeric_ref) (read_ObjectId (v_userId vd))))
         (d_vendors db_numeric_ref)) = [(''Acme'', ''Alice'')]" by code_simp
  then have r5: "map (\<lambda>(v, u). (v_businessName v, u_name u)) (Mongo_getAllVendors db_numeric_ref)
       = [(''Acme'', ''Alice'')]" using B by simp
  have n: "truthy ?aa" "length (String_js ?aa) = 24" "typeof ?aa = TObject"
    "findById (d_users db_numeric_ref) ?aa = Some ?alice" by code_simp+
  note C = vendor_user_joins [where us = "d_users db_numeric_ref" and r = ?aa and u = ?alice]
  have r6: "fst (getVendor_resolve (d_users db_numeric_ref) ?aa) = Some ?alice"
    using C n by simp
  have m: "length (String_js (Num 1)) \<noteq> 24" "typeof (Num 1) = TNumber"
    "findUserByIdField (d_users db_numeric_ref) (Num 1) = Some ?alice" by code_simp+
  note D = vendor_user_joins [where us = "d_users db_numeric_ref" and r = "Num 1" and u = ?alice]
  have r7: "fst (getVendor_resolve (d_users db_numeric_ref) (Num 1)) = Some ?alice"
    using D m by simp
  have r8: "listing_resolve (d_users db_numeric_ref) (Num 1) = Some ?alice"
    using D m by simp
  have t: "truthy ?one" "typeof ?one = TObject"
    "findById (drop 1 (d_users db_digits)) ?one = None"
    "findUserByIdField (drop 1 (d_users db_digits)) (Str (String_js ?one)) = Some ?dave"
    by code_simp+
  note E = vendor_user_joins [where us = "drop 1 (d_users db_digits)" and r = ?one and u = ?dave]
  have r9: "fst (getVendor_resolve (drop 1 (d_users db_digits)) ?one) = Some ?dave"
    using E t by simp
  have r10: "listing_resolve (drop 1 (d_users db_digits)) ?one = Some ?dave"
    using E t by simp
  have names: "u_name ?alice = ''Alice''" "u_name ?dave = ''Dave''" by code_simp+
  show ?thesis
    unfolding r1 r2 l1 r4 r5 r6 r7 r8 r9 r10 using r3 names by simp
qed

subsection \<open>The vendor of a user\<close>

lemma find_None_ball: "find P xs = None \<longleftrightarrow> (\<forall>x\<in>set xs. \<not> P x)"
  by (auto simp: find_None_iff)

lemma find_SomeD: "find P xs = Some x \<Longrightarrow> x \<in> set xs \<and> P x"
  by (auto simp: find_Some_iff)

lemma list_all_is_hex: "list_all is_hex t \<longleftrightarrow> set t \<subseteq> set ''0123456789abcdefABCDEF''"
  unfolding list_all_iff is_hex_iff by blast

lemma getVendorByUserId_native:
  assumes "typeof userId = TString" and "length (String_js userId) = 24"
  shows "Mongo_getVendorByUserId toNum s userId =
     (if list_all is_hex (String_js userId)
      then map_option (mongoVendorToVendor None)
             (find (\<lambda>v. v_userId v = Oid (map lower_char (String_js userId))) (d_vendors s))
      else None)"
proof -
  obtain t where t: "userId = Str t" using assms(1) by (cases userId) auto
  have len: "length t = 24" using assms(2) t by simp
  show ?thesis
  proof (cases "list_all is_hex t")
    case False
    then show ?thesis using t len
      by (simp add: Mongo_getVendorByUserId_def Let_def nonzero_def findById_def)
  next
    case True
    let ?h = "map lower_char t"
    have c: "cast_ObjectId (Str t) = Some ?h" using True len by simp
    show ?thesis
    proof (cases "find (\<lambda>v. v_userId v = Oid ?h) (d_vendors s)")
      case (Some vd)
      then show ?thesis using t len True c
        by (simp add: Mongo_getVendorByUserId_def Let_def nonzero_def)
    next
      case None
      have "(case findById (d_users s) (Str t) of
               Some usr \<Rightarrow> find (\<lambda>v. v_userId v = Oid (u_oid usr)) (d_vendors s)
             | None \<Rightarrow> None) = None"
      proof (cases "findById (d_users s) (Str t)")
        case (Some usr)
        then have "u_oid usr = ?h" using c by (auto simp: findById_def dest: find_SomeD)
        then show ?thesis using Some None by simp
      qed simp
      then show ?thesis using t len True c None
        by (simp add: Mongo_getVendorByUserId_def Let_def nonzero_def)
    qed
  qed
qed

lemma getVendorByUserId_numeric:
  assumes "\<not> (typeof userId = TString \<and> length (String_js userId) = 24)"
  shows "Mongo_getVendorByUserId toNum s userId =
     (case Number_js toNum userId of
        None \<Rightarrow> None
      | Some n \<Rightarrow>
          (if n = 0 then None
           else (case find (\<lambda>u. u_id u = Num n) (d_users s) of
                   None \<Rightarrow> None
                 | Some usr \<Rightarrow>
                     map_option (mongoVendorToVendor (Some n))
                       (find (\<lambda>v. v_userId v = Oid (u_oid usr)) (d_vendors s)))))"
proof (cases "Number_js toNum userId")
  case None
  then show ?thesis using assms
    by (auto simp: Mongo_getVendorByUserId_def Let_def nonzero_def)
next
  case (Some n)
  then show ?thesis using assms
    by (auto simp: Mongo_getVendorByUserId_def Let_def nonzero_def of_number_def
        findUserByIdField_def split: option.splits)
qed

lemma Mongo_getVendorByUserId_None_iff:
  "Mongo_getVendorByUserId toNum s userId = None \<longleftrightarrow>
     (if typeof userId = TString \<and> length (String_js userId) = 24
      then set (String_js userId) \<subseteq> set ''0123456789abcdefABCDEF''
             \<longrightarrow> (\<forall>v\<in>set (d_vendors s). v_userId v \<noteq> Oid (map lower_char (String_js userId)))
      else (\<forall>n. Number_js toNum userId = Some n \<and> n \<noteq> 0
              \<longrightarrow> (\<forall>u. find (\<lambda>u. u_id u = Num n) (d_users s) = Some u
                         \<longrightarrow> (\<forall>v\<in>set (d_vendors s). v_userId v \<noteq> Oid (u_oid u)))))"
proof (cases "typeof userId = TString \<and> length (String_js userId) = 24")
  case True
  then show ?thesis
    using getVendorByUserId_native [of userId toNum s]
    by (simp add: list_all_is_hex find_None_ball)
next
  case False
  note eq = getVendorByUserId_numeric [OF False, of toNum s]
  show ?thesis
    unfolding if_not_P [OF False] eq
  proof (cases "Number_js toNum userId")
    case None
    then show "(case Number_js toNum userId of
        None \<Rightarrow> None
      | Some n \<Rightarrow>
          (if n = 0 then None
           else (case find (\<lambda>u. u_id u = Num n) (d_users s) of
                   None \<Rightarrow> None
                 | Some usr \<Rightarrow>
                     map_option (mongoVendorToVendor (Some n))
                       (find (\<lambda>v. v_userId v = Oid (u_oid usr)) (d_vendors s))))) = None
      \<longleftrightarrow> (\<forall>n. Number_js toNum userId = Some n \<and> n \<noteq> 0
              \<longrightarrow> (\<forall>u. find (\<lambda>u. u_id u = Num n) (d_users s) = Some u
                         \<longrightarrow> (\<forall>v\<in>set (d_vendors s). v_userId v \<noteq> Oid (u_oid u))))"
      by simp
  next
    case (Some k)
    show "(case Number_js toNum userId of
        None \<Rightarrow> None
      | Some n \<Rightarrow>
          (if n = 0 then None
           else (case find (\<lambda>u. u_id u = Num n) (d_users s) of
                   None \<Rightarrow> None
                 | Some usr \<Rightarrow>
                     map_option (mongoVendorToVendor (Some n))
                       (find (\<lambda>v. v_userId v = Oid (u_oid usr)) (d_vendors s))))) = None
      \<longleftrightarrow> (\<forall>n. Number_js toNum userId = Some n \<and> n \<noteq> 0
              \<longrightarrow> (\<forall>u. find (\<lambda>u. u_id u = Num n) (d_users s) = Some u
                         \<longrightarrow> (\<forall>v\<in>set (d_vendors s). v_userId v \<noteq> Oid (u_oid u))))"
    proof (cases "find (\<lambda>u. u_id u = Num k) (d_users s)")
      case None
      then show ?thesis using Some by simp
    next
      case (Some usr)
      then show ?thesis using \<open>Number_js toNum userId = Some k\<close>
        by (simp add: find_None_ball)
    qed
  qed
qed

lemma Mem_getVendorByUserId_None_iff:
  "Mem_getVendorByUserId m userId = None \<longleftrightarrow>
     (\<forall>v\<in>set (Map_values (m_vendors m)). \<not> strict_eq (v_userId v) userId)"
  by (simp add: Mem_getVendorByUserId_def find_None_ball)

lemma createService_vendors:
  "Mongo_createService toNum s x = Inr (c, s') \<Longrightarrow> d_vendors s' = d_vendors s"
  by (auto simp: Mongo_createService_def Let_def split: option.splits if_splits)

lemma post_services_vendors:
  assumes "q_role usr = ''vendor''"
  shows "d_vendors (snd (post_services toNum s usr body)) =
     (case Mongo_getVendorByUserId toNum s (q_id usr) of
        Some vendor \<Rightarrow> d_vendors s
      | None \<Rightarrow> (case Mongo_createVendor toNum s (defaultVendorProfile usr) of
                   Inl e \<Rightarrow> d_vendors s
                 | Inr (newVendor, s1) \<Rightarrow> d_vendors s1))"
  using assms
  by (auto simp: post_services_def dest: createService_vendors
      split: option.splits sum.splits prod.splits)

text \<open>
  Claim C10 (no substitute vendor). \<^verbatim>\<open>getVendorByUserId\<close> is a query: it takes the
  store and returns a vendor or nothing, so the store is as it was. It returns nothing
  exactly when none of its strategies matches a vendor, whatever other vendors and users
  exist:
  \<^item> for a string of 24 characters: when the string is not made of hexadecimal digits, or
    no vendor refers to the ObjectId it denotes (the lookup of the user with that native
    identifier, strategy 3, leads to the same vendors);
  \<^item> otherwise, for the number \<open>n\<close> the reference converts to (zero excepted): when the
    vendors do not refer to the user whose stored \<^verbatim>\<open>id\<close> is \<open>n\<close>. A vendor that stores
    the number itself is not found: the query of strategy 4 raises.
  In MemStorage it returns nothing exactly when no vendor stores a reference strictly equal
  to the one given. In the service creation handler, for a user with the vendor role, the
  vendor collection changes only on that not-found result: it becomes what
  \<^verbatim>\<open>createVendor\<close> makes of it for the default profile.
\<close>

theorem getVendorByUserId_not_found:
  "(Mongo_getVendorByUserId toNum s userId = None \<longleftrightarrow>
     (if typeof userId = TString \<and> length (String_js userId) = 24
      then set (String_js userId) \<subseteq> set ''0123456789abcdefABCDEF''
             \<longrightarrow> (\<forall>v\<in>set (d_vendors s). v_userId v \<noteq> Oid (map lower_char (String_js userId)))
      else (\<forall>n. Number_js toNum userId = Some n \<and> n \<noteq> 0
              \<longrightarrow> (\<forall>u. find (\<lambda>u. u_id u = Num n) (d_users s) = Some u
                         \<longrightarrow> (\<forall>v\<in>set (d_vendors s). v_userId v \<noteq> Oid (u_oid u))))))
   \<and> (Mem_getVendorByUserId m userId = None \<longleftrightarrow>
        (\<forall>v\<in>set (Map_values (m_vendors m)). \<not> strict_eq (v_userId v) userId))
   \<and> (q_role usr = ''vendor'' \<longrightarrow>
        d_vendors (snd (post_services toNum s usr body)) =
          (case Mongo_getVendorByUserId toNum s (q_id usr) of
             Some vendor \<Rightarrow> d_vendors s
           | None \<Rightarrow> (case Mongo_createVendor toNum s (defaultVendorProfile usr) of
                        Inl e \<Rightarrow> d_vendors s
                      | Inr (newVendor, s1) \<Rightarrow> d_vendors s1)))"
  using Mongo_getVendorByUserId_None_iff [of toNum s userId]
    Mem_getVendorByUserId_None_iff [of m userId]
    post_services_vendors [of usr toNum s body]
  by blast

theorem getVendorByUserId_not_found_witness:
  "Mongo_getVendorByUserId decimal db_unordered (Num 9) = None
   \<and> Mem_getVendorByUserId mem_vendor0 (Num 9) = None
   \<and> q_id bob_token = Str ''bbbbbbbbbbbbbbbbbbbbbbbb''
   \<and> Mongo_getVendorByUserId decimal db_two_users (q_id bob_token) = None
   \<and> map v_id (d_vendors (snd (post_services decimal db_two_users bob_token
                                  (anInsertService Undefined ''Mowing'')))) = [Num 1]
   \<and> Mongo_getVendorByUserId decimal db_dangling (Str ''FFFFFFFFFFFFFFFFFFFFFFFF'') \<noteq> None
   \<and> Mongo_getVendorByUserId decimal db_dangling (Str ''gggggggggggggggggggggggg'') = None
   \<and> map v_userId (d_vendors db_numeric_ref) = [Oid ''aaaaaaaaaaaaaaaaaaaaaaaa'', Num 1]
   \<and> Mongo_getVendorByUserId decimal (db_numeric_ref\<lparr>d_users := []\<rparr>) (Num 1) = None"
proof -
  have n: "Number_js decimal (Num 9) = Some 9" "typeof (Num 9) \<noteq> TString" by simp_all
  have a: "find (\<lambda>u. u_id u = Num 9) (d_users db_unordered) = None" by code_simp
  have b: "\<forall>v\<in>set (Map_values (m_vendors mem_vendor0)). \<not> strict_eq (v_userId v) (Num 9)"
    by code_simp
  have c: "q_role bob_token = ''vendor''" by code_simp
  have q: "q_id bob_token = Str ''bbbbbbbbbbbbbbbbbbbbbbbb''" by code_simp
  have d: "d_vendors db_two_users = []" by code_simp
  have e: "map v_id (case Mongo_createVendor decimal db_two_users (defaultVendorProfile bob_token) of
                       Inl e \<Rightarrow> d_vendors db_two_users
                     | Inr (newVendor, s1) \<Rightarrow> d_vendors s1) = [Num 1]"
    by code_simp
  have f: "set ''FFFFFFFFFFFFFFFFFFFFFFFF'' \<subseteq> set ''0123456789abcdefABCDEF''"
    "\<not> (\<forall>v\<in>set (d_vendors db_dangling).
           v_userId v \<noteq> Oid (map lower_char ''FFFFFFFFFFFFFFFFFFFFFFFF''))"
    by code_simp+
  have g: "\<not> set ''gggggggggggggggggggggggg'' \<subseteq> set ''0123456789abcdefABCDEF''"
    by code_simp
  have k: "map v_userId (d_vendors db_numeric_ref) = [Oid ''aaaaaaaaaaaaaaaaaaaaaaaa'', Num 1]"
    by code_simp
  have u0: "d_users (db_numeric_ref\<lparr>d_users := []\<rparr>) = []" by simp
  note one = getVendorByUserId_not_found [where toNum = decimal and s = db_unordered
      and userId = "Num 9" and m = mem_vendor0]
  note two = getVendorByUserId_not_found [where toNum = decimal and s = db_two_users
      and userId = "Str ''bbbbbbbbbbbbbbbbbbbbbbbb''" and usr = bob_token
      and body = "anInsertService Undefined ''Mowing''"]
  note three = getVendorByUserId_not_found [where toNum = decimal and s = db_dangling
      and userId = "Str ''FFFFFFFFFFFFFFFFFFFFFFFF''"]
  note four = getVendorByUserId_not_found [where toNum = decimal and s = db_dangling
      and userId = "Str ''gggggggggggggggggggggggg''"]
  note five = getVendorByUserId_not_found [where toNum = decimal
      and s = "db_numeric_ref\<lparr>d_users := []\<rparr>" and userId = "Num 1"]
  have r1: "Mongo_getVendorByUserId decimal db_unordered (Num 9) = None"
    using one n a by simp
  have r2: "Mem_getVendorByUserId mem_vendor0 (Num 9) = None"
    using one b by simp
  have r3: "Mongo_getVendorByUserId decimal db_two_users (Str ''bbbbbbbbbbbbbbbbbbbbbbbb'') = None"
    using two d by simp
  have r4: "map v_id (d_vendors (snd (post_services decimal db_two_users bob_token
                                  (anInsertService Undefined ''Mowing'')))) = [Num 1]"
    using two c r3 e q by simp
  have r5: "Mongo_getVendorByUserId decimal db_dangling (Str ''FFFFFFFFFFFFFFFFFFFFFFFF'') \<noteq> None"
    using three f by simp
  have r6: "Mongo_getVendorByUserId decimal db_dangling (Str ''gggggggggggggggggggggggg'') = None"
    using four g by simp
  have r7: "Mongo_getVendorByUserId decimal (db_numeric_ref\<lparr>d_users := []\<rparr>) (Num 1) = None"
    using five u0 by simp
  show ?thesis using r1 r2 r3 r4 r5 r6 r7 q k by simp
qed

subsection \<open>Service creation by a vendor without a profile\<close>

lemma createVendor_services:
  "Mongo_createVendor toNum s iv = Inr (nv, s1) \<Longrightarrow> d_services s1 = d_services s"
  by (auto simp: Mongo_createVendor_def Let_def split: option.splits if_splits)

lemma nextServiceId_cong: "d_services s1 = d_services s \<Longrightarrow> nextServiceId s1 = nextServiceId s"
  by (simp add: nextServiceId_def lastService_def)

lemma Mongo_createVendor_succeeds:
  assumes "d_users s \<noteq> []" and "0 < nextVendorId toNum s"
  shows "\<exists>nv s1. Mongo_createVendor toNum s iv = Inr (nv, s1)
           \<and> v_id nv = Num (nextVendorId toNum s)
           \<and> v_businessName nv = v_businessName iv \<and> v_category nv = v_category iv
           \<and> v_description nv = v_description iv
           \<and> (\<exists>vd. d_vendors s1 = d_vendors s @ [vd] \<and> v_id vd = Num (nextVendorId toNum s)
                 \<and> v_businessName vd = v_businessName iv)
           \<and> d_users s1 = d_users s \<and> d_services s1 = d_services s"
proof -
  obtain u where "fst (createVendor_resolve toNum (d_users s) (v_userId iv)) = Some u"
    using assms(1) createVendor_resolve_None_iff [of toNum "d_users s" "v_userId iv"] by auto
  then show ?thesis using assms(2)
    by (simp add: Mongo_createVendor_def Let_def mongoVendorToVendor_def insert_vendor.defs
        vendor.defs split: jsval.splits)
qed

lemma self_healing_service_creation:
  assumes "q_role usr = ''vendor''"
    and "Mongo_getVendorByUserId toNum s (q_id usr) = None"
    and "d_users s \<noteq> []" and "0 < nextVendorId toNum s"
    and "2 \<le> length (s_name body)" and "10 \<le> length (s_description body)"
    and "valid_positive toNum (nextServiceId s)"
  shows "\<exists>srv s2 vd. post_services toNum s usr body = (Created srv, s2)
           \<and> d_vendors s2 = d_vendors s @ [vd]
           \<and> v_id vd = Num (nextVendorId toNum s)
           \<and> v_businessName vd = defaultBusinessName usr
           \<and> s_vendorId srv = v_id vd
           \<and> (\<exists>c. d_services s2 = d_services s @ [c] \<and> s_vendorId c = v_id vd)"
proof -
  obtain nv s1 vd where cv: "Mongo_createVendor toNum s (defaultVendorProfile usr) = Inr (nv, s1)"
    and nv: "v_id nv = Num (nextVendorId toNum s)"
    and vd: "d_vendors s1 = d_vendors s @ [vd]" "v_id vd = Num (nextVendorId toNum s)"
      "v_businessName vd = v_businessName (defaultVendorProfile usr)"
    and same: "d_services s1 = d_services s"
    using Mongo_createVendor_succeeds [OF assms(3,4), of "defaultVendorProfile usr"] by blast
  have parse: "parse_insertService (body\<lparr>s_vendorId := cast_number toNum (v_id nv)\<rparr>)
                 = Some (body\<lparr>s_vendorId := Num (nextVendorId toNum s)\<rparr>)"
    using assms(5,6) nv by (simp add: parse_insertService_def cast_number_def of_number_def)
  have sid: "nextServiceId s1 = nextServiceId s" using same by (rule nextServiceId_cong)
  have cs: "\<exists>srv s2 c. Mongo_createService toNum s1 (body\<lparr>s_vendorId := Num (nextVendorId toNum s)\<rparr>)
               = Inr (srv, s2) \<and> s_vendorId srv = Num (nextVendorId toNum s)
                 \<and> d_vendors s2 = d_vendors s1 \<and> d_services s2 = d_services s1 @ [c]
                 \<and> s_vendorId c = Num (nextVendorId toNum s)"
    using assms(4,7) sid
    by (simp add: Mongo_createService_def Let_def mongoServiceToService_def insert_service.defs
        service.defs)
  then obtain srv s2 c where
    "Mongo_createService toNum s1 (body\<lparr>s_vendorId := Num (nextVendorId toNum s)\<rparr>) = Inr (srv, s2)"
    "s_vendorId srv = Num (nextVendorId toNum s)" "d_vendors s2 = d_vendors s1"
    "d_services s2 = d_services s1 @ [c]" "s_vendorId c = Num (nextVendorId toNum s)"
    by blast
  then show ?thesis
    using assms(1,2) cv parse vd same
    by (simp add: post_services_def defaultVendorProfile_def)
qed

text \<open>
  Claim C6 (self-healing service creation). The claim: for a user with the vendor role and
  no vendor profile, the handler first creates a default profile, its business name
  derived from the user's display name, then the service, linked to the new vendor, and
  does not reject the request.

  The profile is created and the service linked to it (\<open>self_healing_service_creation\<close>),
  but the business name is not derived from the user's name. The handler reads
  \<^verbatim>\<open>req.user.name\<close>, and \<^verbatim>\<open>req.user\<close> is the token payload, which has no name. For
  Bob, registered as a vendor and authenticated by his token, the profile created is
  named \<open>''New Business''\<close>.
\<close>

theorem auto_provisioned_vendor_is_New_Business:
  "u_name bob = ''Bob'' \<and> u_role bob = ''vendor'' \<and> q_name bob_token = Undefined
   \<and> Mongo_getVendorByUserId decimal db_two_users (q_id bob_token) = None
   \<and> (case post_services decimal db_two_users bob_token (anInsertService Undefined ''Mowing'') of
         (Created srv, s1) \<Rightarrow>
           s_vendorId srv = Num 1
           \<and> map (\<lambda>v. (v_id v, v_businessName v, v_category v, v_userId v)) (d_vendors s1)
               = [(Num 1, ''New Business'', ''General Services'', Oid ''bbbbbbbbbbbbbbbbbbbbbbbb'')]
           \<and> map (\<lambda>c. (s_id c, s_vendorId c, s_name c)) (d_services s1)
               = [(Num 1, Num 1, ''Mowing'')]
       | other \<Rightarrow> False)"
  by code_simp


subsection \<open>Vendor search\<close>



lemma v_id_mongoVendorToVendor [simp]: "v_id (mongoVendorToVendor n vd) = v_id vd"
  by (simp add: mongoVendorToVendor_def)

lemma v_id_hydrate_vendor [simp]: "v_id (hydrate_vendor vd) = v_id vd"
  by (simp add: hydrate_vendor_def)



















subsection \<open>The two stores compared\<close>

lemma AList_update_fresh: "k \<notin> fst ` set xs \<Longrightarrow> AList.update k v xs = xs @ [(k, v)]"
  by (induction xs) auto

lemma Mem_createVendor_stores:
  "v_userId (fst (Mem_createVendor m insertVendor)) = v_userId insertVendor
   \<and> v_id (fst (Mem_createVendor m insertVendor)) = Num (vendorIdCounter m)
   \<and> Map_get (m_vendors (snd (Mem_createVendor m insertVendor)))
         (v_id (fst (Mem_createVendor m insertVendor)))
       = Some (fst (Mem_createVendor m insertVendor))"
  by (simp add: Mem_createVendor_def Let_def insert_vendor.defs vendor.defs update_conv')

lemma Mem_getVendor_cases:
  "map_of (m_vendors m) vid = Some vd \<Longrightarrow> Map_get (m_users m) (v_userId vd) = None
     \<Longrightarrow> Mem_getVendor m (Num vid) = None"
  "map_of (m_vendors m) vid = Some vd \<Longrightarrow> Map_get (m_users m) (v_userId vd) = Some u
     \<Longrightarrow> Mem_getVendor m (Num vid) = Some (vd, u)"
  by (simp_all add: Mem_getVendor_def)

lemma Mem_createReview_stores:
  "r_userId (fst (Mem_createReview m now insertReview)) = r_userId insertReview
   \<and> map_of (m_reviews (snd (Mem_createReview m now insertReview))) (reviewIdCounter m)
       = Some (fst (Mem_createReview m now insertReview))"
  by (simp add: Mem_createReview_def Let_def insert_review.defs review.defs update_conv'
      split: jsval.splits option.splits)

lemma Mongo_createReview_numeric_author:
  "typeof (r_userId insertReview) = TNumber \<Longrightarrow> isl (Mongo_createReview toNum d now insertReview)"
  by (cases "r_userId insertReview")
     (simp_all add: Mongo_createReview_def Let_def split: option.splits)

text \<open>
  Claim C5 (equivalence of the stores). The claim: \<^verbatim>\<open>createVendor\<close>, \<^verbatim>\<open>getVendor\<close> and
  \<^verbatim>\<open>createReview\<close> give the same results in MemStorage and in MongoDBStorage for every
  sequence of operations, MemStorage resolving users by the same cascade with fallback.

  MemStorage resolves nothing. On an empty store its \<^verbatim>\<open>createVendor\<close> returns vendor 1
  where MongoDBStorage raises; after registering Alice and creating a vendor for the unknown
  user 99, its \<^verbatim>\<open>getVendor(1)\<close> returns nothing where MongoDBStorage returns the vendor
  joined with Alice.
\<close>

theorem mem_storage_resolves_nothing:
  "isl (Mongo_createVendor decimal Mongo_new (anInsertVendor (Num 1) ''Acme''))
   \<and> v_id (fst (Mem_createVendor Mem_new (anInsertVendor (Num 1) ''Acme''))) = Num 1
   \<and> Mem_getVendor
        (snd (Mem_createVendor (snd (Mem_createUser Mem_new 0 (anInsertUser ''Alice'' ''user'')))
                (anInsertVendor (Num 99) ''Acme''))) (Num 1) = None
   \<and> map_option (\<lambda>(v, u). u_name u)
        (Mongo_getVendor
           (the_store (Mongo_createVendor decimal
              (snd (Mongo_createUser Mongo_new 0 ''aaaaaaaaaaaaaaaaaaaaaaaa''
                      (anInsertUser ''Alice'' ''user'')))
              (anInsertVendor (Num 99) ''Acme''))) 1) = Some ''Alice''"
  by code_simp

text \<open>
  Claim C5, amended. The two implementations are not equivalent on these operations.
  MemStorage's \<^verbatim>\<open>createVendor\<close> never fails: it issues the value of its counter and
  stores the user reference as given. Its \<^verbatim>\<open>getVendor\<close> joins a stored vendor with the
  user whose key is the vendor's reference, and returns nothing when the reference is not
  the key of a user, whatever other users exist; it has no cascade and no fallback. Its
  \<^verbatim>\<open>createReview\<close> stores every review with the author as given, while MongoDBStorage
  rejects a review whose author is given by number, as the signature declares.
\<close>

theorem stores_compared:
  "v_userId (fst (Mem_createVendor m insertVendor)) = v_userId insertVendor
   \<and> v_id (fst (Mem_createVendor m insertVendor)) = Num (vendorIdCounter m)
   \<and> Map_get (m_vendors (snd (Mem_createVendor m insertVendor)))
         (v_id (fst (Mem_createVendor m insertVendor)))
       = Some (fst (Mem_createVendor m insertVendor))
   \<and> (map_of (m_vendors m) vid = Some vd \<and> Map_get (m_users m) (v_userId vd) = None
        \<longrightarrow> Mem_getVendor m (Num vid) = None)
   \<and> (map_of (m_vendors m) vid = Some vd \<and> Map_get (m_users m) (v_userId vd) = Some u
        \<longrightarrow> Mem_getVendor m (Num vid) = Some (vd, u))
   \<and> r_userId (fst (Mem_createReview m now insertReview)) = r_userId insertReview
   \<and> map_of (m_reviews (snd (Mem_createReview m now insertReview))) (reviewIdCounter m)
       = Some (fst (Mem_createReview m now insertReview))
   \<and> (typeof (r_userId insertReview) = TNumber
        \<longrightarrow> isl (Mongo_createReview toNum d now insertReview))"
  using Mem_createVendor_stores [of m insertVendor] Mem_getVendor_cases [of m vid vd]
    Mem_createReview_stores [of m now insertReview]
    Mongo_createReview_numeric_author [of insertReview toNum d now]
  by blast

theorem stores_compared_witness:
  "Mem_getVendor mem_bob (Num 4) = None
   \<and> map_option (\<lambda>(v, u). (v_businessName v, u_name u)) (Mem_getVendor mem_vendor0 (Num 1))
       = Some (''Acme'', ''Alice'')
   \<and> isl (Mongo_createReview decimal db_vendor0 1 (anInsertReview (Num 1) (Num 1) 5))
   \<and> r_userId (fst (Mem_createReview mem_vendor0 1 (anInsertReview (Num 1) (Num 1) 5))) = Num 1"
proof -
  let ?v = "the (map_of (m_vendors mem_bob) 4)"
  let ?a = "the (map_of (m_vendors mem_vendor0) 1)"
  let ?u = "the (map_of (m_users mem_vendor0) 1)"
  have v: "map_of (m_vendors mem_bob) 4 = Some ?v"
    "Map_get (m_users mem_bob) (v_userId ?v) = None"
    by code_simp+
  have a: "map_of (m_vendors mem_vendor0) 1 = Some ?a"
    "Map_get (m_users mem_vendor0) (v_userId ?a) = Some ?u"
    "v_businessName ?a = ''Acme''" "u_name ?u = ''Alice''"
    by code_simp+
  have i: "typeof (r_userId (anInsertReview (Num 1) (Num 1) 5)) = TNumber"
    "r_userId (anInsertReview (Num 1) (Num 1) 5) = Num 1" by code_simp+
  note one = stores_compared [where m = mem_bob and vid = 4 and vd = ?v]
  note two = stores_compared [where m = mem_vendor0 and vid = 1 and vd = ?a and u = ?u
      and d = db_vendor0 and insertReview = "anInsertReview (Num 1) (Num 1) 5"
      and toNum = decimal and now = 1]
  have r1: "Mem_getVendor mem_bob (Num 4) = None"
    using one v by blast
  have r2: "Mem_getVendor mem_vendor0 (Num 1) = Some (?a, ?u)"
    using two a(1,2) by blast
  have r3: "isl (Mongo_createReview decimal db_vendor0 1 (anInsertReview (Num 1) (Num 1) 5))"
    using two i(1) by blast
  have r4: "r_userId (fst (Mem_createReview mem_vendor0 1 (anInsertReview (Num 1) (Num 1) 5)))
              = Num 1"
    using two i(2) by simp
  show ?thesis unfolding r2 using r1 r3 r4 a(3,4) by simp
qed

subsection \<open>The review count after a review, in general\<close>

text \<open>
  The count that review creation writes, in every in-memory store: when the vendor exists
  and the author is a known user, it is the number of reviews the vendor had before, plus
  two.
\<close>

lemma Mem_createReview_reviewCount:
  assumes vendor: "map_of (m_vendors m) n = Some v"
    and author: "Map_get (m_users m) (r_userId insertReview) = Some u"
    and vid: "r_vendorId insertReview = Num n"
    and fresh: "reviewIdCounter m \<notin> fst ` set (m_reviews m)"
  shows "map_option v_reviewCount (map_of (m_vendors (snd (Mem_createReview m now insertReview))) n)
           = Some (int (length (Mem_getReviewsByVendorId m (Num n))) + 2)"
proof -
  define rev where "rev = insert_review.extend insertReview (review.fields (Num (reviewIdCounter m)) now)"
  define m1 where "m1 = m\<lparr>reviewIdCounter := reviewIdCounter m + 1,
                           m_reviews := AList.update (reviewIdCounter m) rev (m_reviews m)\<rparr>"
  have rv: "r_vendorId rev = Num n" "r_userId rev = r_userId insertReview"
    using vid by (simp_all add: rev_def insert_review.defs review.defs)
  have "m_reviews m1 = m_reviews m @ [(reviewIdCounter m, rev)]"
    using fresh by (simp add: m1_def AList_update_fresh)
  then have "Mem_getReviewsByVendorId m1 (Num n) = Mem_getReviewsByVendorId m (Num n) @ [(rev, u)]"
    using rv author
    by (simp add: Mem_getReviewsByVendorId_def Map_values_def List.map_filter_def m1_def)
  then have len: "int (length (Mem_getReviewsByVendorId m1 (Num n))) + 1
                    = int (length (Mem_getReviewsByVendorId m (Num n))) + 2"
    by simp
  have mv: "map_of (m_vendors m1) n = Some v" using vendor by (simp add: m1_def)
  have "Mem_createReview m now insertReview =
     (case map_of (m_vendors m1) n of
        None \<Rightarrow> (rev, m1)
      | Some vendor \<Rightarrow>
          (rev, m1\<lparr>m_vendors := AList.update n
                  (vendor\<lparr>v_rating := Math_round_div
                              (sum_ratings (Mem_getReviewsByVendorId m1 (Num n))
                                 + r_rating insertReview)
                              (int (length (Mem_getReviewsByVendorId m1 (Num n))) + 1),
                          v_reviewCount := int (length (Mem_getReviewsByVendorId m1 (Num n))) + 1\<rparr>)
                  (m_vendors m1)\<rparr>))"
    unfolding Mem_createReview_def Let_def m1_def rev_def vid
    by (simp only: jsval.case)
  then show ?thesis
    using mv len by (simp add: update_conv')
qed

end
